theory Spec2Isabelle
  imports Complex_Main
begin

section \<open>Numbers as numpy holds them\<close>

text \<open>
  The arrays of \<^verbatim>\<open>camera_nd_obj.py\<close> and \<^verbatim>\<open>scene_3d_viewer.py\<close> hold 64-bit
  floating-point numbers. A component is modelled as an exact real or one of the three
  special values; rounding, overflow and the sign of zero are not modelled (a zero divisor
  counts as +0). What is modelled is what decides the degenerate cases: numpy's division
  does not raise, \<^verbatim>\<open>0/0\<close> is \<^verbatim>\<open>nan\<close>, \<^verbatim>\<open>x/0\<close> is an infinity, and
  \<^verbatim>\<open>nan\<close> propagates through every operation and compares false.
\<close>

datatype fl = Fin real | PInf | NInf | NaN

fun fneg :: "fl \<Rightarrow> fl" where
  "fneg (Fin a) = Fin (- a)"
| "fneg PInf = NInf"
| "fneg NInf = PInf"
| "fneg NaN = NaN"

fun fadd :: "fl \<Rightarrow> fl \<Rightarrow> fl" where
  "fadd (Fin a) (Fin b) = Fin (a + b)"
| "fadd NaN y = NaN"
| "fadd x NaN = NaN"
| "fadd PInf NInf = NaN"
| "fadd NInf PInf = NaN"
| "fadd PInf y = PInf"
| "fadd x PInf = PInf"
| "fadd NInf y = NInf"
| "fadd x NInf = NInf"

definition fsub :: "fl \<Rightarrow> fl \<Rightarrow> fl" where
  "fsub x y = fadd x (fneg y)"

fun fmul :: "fl \<Rightarrow> fl \<Rightarrow> fl" where
  "fmul (Fin a) (Fin b) = Fin (a * b)"
| "fmul NaN y = NaN"
| "fmul x NaN = NaN"
| "fmul PInf (Fin b) = (if b = 0 then NaN else if 0 < b then PInf else NInf)"
| "fmul NInf (Fin b) = (if b = 0 then NaN else if 0 < b then NInf else PInf)"
| "fmul (Fin a) PInf = (if a = 0 then NaN else if 0 < a then PInf else NInf)"
| "fmul (Fin a) NInf = (if a = 0 then NaN else if 0 < a then NInf else PInf)"
| "fmul PInf PInf = PInf"
| "fmul PInf NInf = NInf"
| "fmul NInf PInf = NInf"
| "fmul NInf NInf = PInf"

fun fdiv :: "fl \<Rightarrow> fl \<Rightarrow> fl" where
  "fdiv (Fin a) (Fin b) =
     (if b = 0 then (if a = 0 then NaN else if 0 < a then PInf else NInf)
      else Fin (a / b))"
| "fdiv NaN y = NaN"
| "fdiv x NaN = NaN"
| "fdiv (Fin a) PInf = Fin 0"
| "fdiv (Fin a) NInf = Fin 0"
| "fdiv PInf (Fin b) = (if 0 \<le> b then PInf else NInf)"
| "fdiv NInf (Fin b) = (if 0 \<le> b then NInf else PInf)"
| "fdiv x y = NaN"

fun fsqrt :: "fl \<Rightarrow> fl" where
  "fsqrt (Fin a) = (if a < 0 then NaN else Fin (sqrt a))"
| "fsqrt PInf = PInf"
| "fsqrt NInf = NaN"
| "fsqrt NaN = NaN"

fun fless :: "fl \<Rightarrow> fl \<Rightarrow> bool" where
  "fless (Fin a) (Fin b) = (a < b)"
| "fless NaN y = False"
| "fless x NaN = False"
| "fless x NInf = False"
| "fless PInf y = False"
| "fless x y = True"

section \<open>Three-component arrays\<close>

datatype vec3 = V fl fl fl

fun vneg :: "vec3 \<Rightarrow> vec3" where
  "vneg (V x y z) = V (fneg x) (fneg y) (fneg z)"

fun vadd :: "vec3 \<Rightarrow> vec3 \<Rightarrow> vec3" where
  "vadd (V a b c) (V x y z) = V (fadd a x) (fadd b y) (fadd c z)"

fun vsub :: "vec3 \<Rightarrow> vec3 \<Rightarrow> vec3" where
  "vsub (V a b c) (V x y z) = V (fsub a x) (fsub b y) (fsub c z)"

text \<open>\<^verbatim>\<open>s * v\<close> and \<^verbatim>\<open>v / s\<close> with a scalar \<^verbatim>\<open>s\<close>, broadcast over the components.\<close>

fun vscale :: "fl \<Rightarrow> vec3 \<Rightarrow> vec3" where
  "vscale s (V x y z) = V (fmul s x) (fmul s y) (fmul s z)"

fun vdivs :: "vec3 \<Rightarrow> fl \<Rightarrow> vec3" where
  "vdivs (V x y z) s = V (fdiv x s) (fdiv y s) (fdiv z s)"

text \<open>\<^verbatim>\<open>a @ b\<close> of two one-dimensional arrays.\<close>

fun vdot :: "vec3 \<Rightarrow> vec3 \<Rightarrow> fl" where
  "vdot (V a b c) (V x y z) = fadd (fadd (fmul a x) (fmul b y)) (fmul c z)"

text \<open>\<^verbatim>\<open>np.cross\<close> on two arrays of three components.\<close>

fun cross :: "vec3 \<Rightarrow> vec3 \<Rightarrow> vec3" where
  "cross (V a b c) (V x y z) =
     V (fsub (fmul b z) (fmul c y))
       (fsub (fmul c x) (fmul a z))
       (fsub (fmul a y) (fmul b x))"

text \<open>\<^verbatim>\<open>np.linalg.norm\<close> of a one-dimensional array: the root of the sum of squares.\<close>

fun norm3 :: "vec3 \<Rightarrow> fl" where
  "norm3 (V x y z) = fsqrt (fadd (fadd (fmul x x) (fmul y y)) (fmul z z))"

section \<open>Camera\<close>

text \<open>
  The fields of \<^verbatim>\<open>Camera\<close> (\<^verbatim>\<open>_position\<close>, \<^verbatim>\<open>_up\<close>, \<^verbatim>\<open>_size\<close>,
  \<^verbatim>\<open>_direction\<close>, \<^verbatim>\<open>_right\<close>, \<^verbatim>\<open>_vertices\<close>); \<open>None\<close> is Python's
  \<^verbatim>\<open>None\<close>.
\<close>

record camera =
  c_position :: vec3
  c_up :: vec3
  c_size :: fl
  c_direction :: "vec3 option"
  c_right :: "vec3 option"
  c_vertices :: "vec3 list option"

definition Camera :: "vec3 \<Rightarrow> vec3 \<Rightarrow> fl \<Rightarrow> camera" where
  "Camera position up size3 =
     \<lparr>c_position = position, c_up = up, c_size = size3,
      c_direction = None, c_right = None, c_vertices = None\<rparr>"

text \<open>
  \<^verbatim>\<open>_update_vertices\<close>. Its only caller \<^verbatim>\<open>_update_camera\<close> has just stored
  \<^verbatim>\<open>_right\<close> and holds a \<^verbatim>\<open>_direction\<close> that is not \<^verbatim>\<open>None\<close>; the two vectors
  are read from the fields by the caller and passed in.
\<close>

definition update_vertices :: "camera \<Rightarrow> vec3 \<Rightarrow> vec3 \<Rightarrow> camera" where
  "update_vertices c r d =
     c\<lparr>c_vertices := Some
        [c_position c,
         vadd (c_position c) (vscale (c_size c) (vsub (vadd (vneg r) d) (c_up c))),
         vadd (c_position c) (vscale (c_size c) (vsub (vadd r d) (c_up c))),
         vadd (c_position c) (vscale (c_size c) (vadd (vadd r d) (c_up c))),
         vadd (c_position c) (vscale (c_size c) (vadd (vadd (vneg r) d) (c_up c)))]\<rparr>"

definition update_camera :: "camera \<Rightarrow> camera" where
  "update_camera c =
     (case c_direction c of
        None \<Rightarrow> c
      | Some d \<Rightarrow>
          let r0 = cross d (c_up c);
              r = vdivs r0 (norm3 r0);
              u0 = cross r d;
              u = vdivs u0 (norm3 u0)
          in update_vertices (c\<lparr>c_right := Some r, c_up := u\<rparr>) r d)"

definition set_position :: "camera \<Rightarrow> vec3 \<Rightarrow> camera" where
  "set_position c v = update_camera (c\<lparr>c_position := v\<rparr>)"

definition set_size :: "camera \<Rightarrow> fl \<Rightarrow> camera" where
  "set_size c v = update_camera (c\<lparr>c_size := v\<rparr>)"

definition look_at :: "camera \<Rightarrow> vec3 \<Rightarrow> camera" where
  "look_at c target =
     (let d0 = vsub target (c_position c);
          d = vdivs d0 (norm3 d0)
      in update_camera (c\<lparr>c_direction := Some d\<rparr>))"

text \<open>
  The operations a caller can apply to a camera: the two property setters and
  \<^verbatim>\<open>look_at\<close>.
\<close>

datatype cam_op = SetPosition vec3 | SetSize fl | LookAt vec3

fun apply_op :: "camera \<Rightarrow> cam_op \<Rightarrow> camera" where
  "apply_op c (SetPosition v) = set_position c v"
| "apply_op c (SetSize s) = set_size c s"
| "apply_op c (LookAt t) = look_at c t"

fun is_setter :: "cam_op \<Rightarrow> bool" where
  "is_setter (LookAt t) = False"
| "is_setter x = True"

section \<open>Projection (\<^verbatim>\<open>Scene3DViewer.draw_projected_view\<close>)\<close>

text \<open>A 3x3 array, held as its three rows.\<close>

datatype mat3 = M vec3 vec3 vec3

text \<open>\<^verbatim>\<open>np.column_stack([a, b, c])\<close>: the three arrays become the columns.\<close>

fun column_stack :: "vec3 \<Rightarrow> vec3 \<Rightarrow> vec3 \<Rightarrow> mat3" where
  "column_stack (V a1 a2 a3) (V b1 b2 b3) (V c1 c2 c3) =
     M (V a1 b1 c1) (V a2 b2 c2) (V a3 b3 c3)"

fun mneg :: "mat3 \<Rightarrow> mat3" where
  "mneg (M r1 r2 r3) = M (vneg r1) (vneg r2) (vneg r3)"

text \<open>\<^verbatim>\<open>m @ v\<close> of a 3x3 array and a one-dimensional array.\<close>

fun matvec :: "mat3 \<Rightarrow> vec3 \<Rightarrow> vec3" where
  "matvec (M r1 r2 r3) v = V (vdot r1 v) (vdot r2 v) (vdot r3 v)"

definition camera_matrix :: mat3 where
  "camera_matrix =
     M (V (Fin 800) (Fin 0) (Fin 320))
       (V (Fin 0) (Fin 800) (Fin 240))
       (V (Fin 0) (Fin 0) (Fin 1))"

text \<open>
  The body of the loop over the vertices: camera transform, the clamp of the depth, the
  division, the camera matrix, and \<^verbatim>\<open>projected[:2]\<close>.
\<close>

fun project_vertex :: "mat3 \<Rightarrow> vec3 \<Rightarrow> vec3 \<Rightarrow> fl \<times> fl" where
  "project_vertex rotation_matrix translation_vector vertex =
     (case vadd (matvec rotation_matrix vertex) translation_vector of
        V t0 t1 t2 \<Rightarrow>
          let z = (if fless t2 (Fin (1 / 10)) then Fin (1 / 10) else t2);
              x = fdiv t0 z;
              y = fdiv t1 z
          in (case matvec camera_matrix (V x y (Fin 1)) of
                V p0 p1 p2 \<Rightarrow> (p0, p1)))"

datatype py_error = ValueError

text \<open>
  The computation of \<^verbatim>\<open>projected_points\<close> from the camera and the list of vertices.
  When \<^verbatim>\<open>look_at\<close> has never run, \<^verbatim>\<open>camera._right\<close> is \<^verbatim>\<open>None\<close> and
  \<^verbatim>\<open>np.cross\<close> raises on it.
\<close>

definition projected_points :: "camera \<Rightarrow> vec3 list \<Rightarrow> py_error + (fl \<times> fl) list" where
  "projected_points cam vertices =
     (case c_right cam of
        None \<Rightarrow> Inl ValueError
      | Some camera_right \<Rightarrow>
          let camera_up = c_up cam;
              rotation_matrix =
                column_stack camera_right (cross camera_up camera_right) camera_up;
              translation_vector = matvec (mneg rotation_matrix) (c_position cam)
          in Inr (map (project_vertex rotation_matrix translation_vector) vertices))"

section \<open>Exact vectors\<close>

text \<open>
  Vectors of reals, and their embedding into the arrays: the language in which the
  properties of the finite case are stated.
\<close>

type_synonym rvec = "real \<times> real \<times> real"

fun vfin :: "rvec \<Rightarrow> vec3" where
  "vfin (x, y, z) = V (Fin x) (Fin y) (Fin z)"

fun rdot :: "rvec \<Rightarrow> rvec \<Rightarrow> real" where
  "rdot (a, b, c) (x, y, z) = a * x + b * y + c * z"

fun rcross :: "rvec \<Rightarrow> rvec \<Rightarrow> rvec" where
  "rcross (a, b, c) (x, y, z) = (b * z - c * y, c * x - a * z, a * y - b * x)"

fun radd :: "rvec \<Rightarrow> rvec \<Rightarrow> rvec" where
  "radd (a, b, c) (x, y, z) = (a + x, b + y, c + z)"

fun rsub :: "rvec \<Rightarrow> rvec \<Rightarrow> rvec" where
  "rsub (a, b, c) (x, y, z) = (a - x, b - y, c - z)"

fun rscale :: "real \<Rightarrow> rvec \<Rightarrow> rvec" where
  "rscale k (x, y, z) = (k * x, k * y, k * z)"

definition rnorm :: "rvec \<Rightarrow> real" where
  "rnorm a = sqrt (rdot a a)"

definition rnormalize :: "rvec \<Rightarrow> rvec" where
  "rnormalize a = rscale (1 / rnorm a) a"

definition nanv :: vec3 where
  "nanv = V NaN NaN NaN"

text \<open>
  The three derived vectors are defined, pairwise orthogonal and of norm one, as the
  arrays hold them.
\<close>

definition orthonormal :: "camera \<Rightarrow> bool" where
  "orthonormal c =
     (case (c_right c, c_direction c) of
        (Some r, Some d) \<Rightarrow>
          vdot r (c_up c) = Fin 0 \<and> vdot r d = Fin 0 \<and> vdot (c_up c) d = Fin 0 \<and>
          norm3 r = Fin 1 \<and> norm3 (c_up c) = Fin 1 \<and> norm3 d = Fin 1
      | _ \<Rightarrow> False)"

section \<open>Concrete scenes\<close>

text \<open>
  The camera of the viewer (the defaults of \<^verbatim>\<open>Camera.__init__\<close>) and a camera at the
  origin.
\<close>

definition default_camera :: camera where
  "default_camera = Camera (vfin (2, - 4, 2)) (vfin (0, 0, 1)) (Fin (3 / 10))"

definition axis_camera :: camera where
  "axis_camera = Camera (vfin (0, 0, 0)) (vfin (0, 0, 1)) (Fin 1)"

section \<open>The frustum as the specification words it\<close>

text \<open>
  The apex, then the four base corners position + size (s_r right + direction + s_u up)
  with the signs (s_r, s_u) in the order (-,-), (+,-), (+,+), (-,+); \<open>False\<close> is the
  minus sign.
\<close>

fun signed :: "bool \<Rightarrow> vec3 \<Rightarrow> vec3" where
  "signed True v = v"
| "signed False v = vneg v"

definition corner :: "vec3 \<Rightarrow> fl \<Rightarrow> vec3 \<Rightarrow> vec3 \<Rightarrow> vec3 \<Rightarrow> bool \<Rightarrow> bool \<Rightarrow> vec3" where
  "corner p s r d u sr su = vadd p (vscale s (vadd (vadd (signed sr r) d) (signed su u)))"

definition frustum :: "vec3 \<Rightarrow> fl \<Rightarrow> vec3 \<Rightarrow> vec3 \<Rightarrow> vec3 \<Rightarrow> vec3 list" where
  "frustum p s r d u =
     [p, corner p s r d u False False, corner p s r d u True False,
      corner p s r d u True True, corner p s r d u False True]"

text \<open>
  The vertices agree with the fields: none before a direction exists, the frustum of the
  current fields afterwards.
\<close>

definition frustum_ok :: "camera \<Rightarrow> bool" where
  "frustum_ok c =
     (case c_direction c of
        None \<Rightarrow> c_vertices c = None
      | Some d \<Rightarrow>
          (case c_right c of
             None \<Rightarrow> False
           | Some r \<Rightarrow>
               c_vertices c = Some (frustum (c_position c) (c_size c) r d (c_up c))))"

section \<open>The projection as the specification words it\<close>

text \<open>
  The product of the matrix with columns \<open>a\<close>, \<open>b\<close>, \<open>c\<close> and a vector, as a combination of
  the columns.
\<close>
fun rcolmul :: "rvec \<Rightarrow> rvec \<Rightarrow> rvec \<Rightarrow> rvec \<Rightarrow> rvec" where
  "rcolmul a b c (x, y, z) = radd (radd (rscale x a) (rscale y b)) (rscale z c)"

text \<open>
  The pixel of a world point: the rotation matrix with columns right, up x right, up; the
  translation, minus the matrix applied to the camera position; the depth clamped up to 0.1;
  the division; the matrix K = [[800, 0, 320], [0, 800, 240], [0, 0, 1]] applied to
  (x, y, 1), of which the first two components are kept.
\<close>

definition spec_pixel :: "rvec \<Rightarrow> rvec \<Rightarrow> rvec \<Rightarrow> rvec \<Rightarrow> real \<times> real" where
  "spec_pixel right up position p =
     (let t = rscale (- 1) (rcolmul right (rcross up right) up position)
      in case radd (rcolmul right (rcross up right) up p) t of
           (tx, ty, tz) \<Rightarrow>
             let z = (if tz < 1 / 10 then 1 / 10 else tz);
                 x = tx / z;
                 y = ty / z
             in (800 * x + 0 * y + 320 * 1, 0 * x + 800 * y + 240 * 1))"

fun pixel_fin :: "real \<times> real \<Rightarrow> fl \<times> fl" where
  "pixel_fin (x, y) = (Fin x, Fin y)"

section \<open>Cube\<close>

text \<open>
  The fields of \<^verbatim>\<open>Cube\<close>; the edges hold the coordinates of their two end points, not
  indices.
\<close>

record cube =
  cube_origin :: vec3
  cube_size :: fl
  cube_vertices :: "vec3 list option"
  cube_edges :: "(vec3 \<times> vec3) list option"

definition edge_indices :: "(nat \<times> nat) list" where
  "edge_indices =
     [(0, 1), (0, 2), (0, 4), (1, 3), (1, 5), (2, 3),
      (2, 6), (4, 5), (4, 6), (7, 3), (7, 5), (7, 6)]"

text \<open>
  \<^verbatim>\<open>Cube._update_geometry\<close>. The source's local \<^verbatim>\<open>o\<close> is \<open>origin\<close> here; the loop
  over \<^verbatim>\<open>edge_indices\<close> appends one pair per index pair, and every index is below 8.
\<close>

definition cube_update_geometry :: "cube \<Rightarrow> cube" where
  "cube_update_geometry c =
     (let origin = cube_origin c;
          s = cube_size c;
          vertices =
            [vadd origin (V (Fin 0) (Fin 0) (Fin 0)), vadd origin (V s (Fin 0) (Fin 0)),
             vadd origin (V (Fin 0) s (Fin 0)), vadd origin (V s s (Fin 0)),
             vadd origin (V (Fin 0) (Fin 0) s), vadd origin (V s (Fin 0) s),
             vadd origin (V (Fin 0) s s), vadd origin (V s s s)];
          edges = map (\<lambda>(start_idx, end_idx). (vertices ! start_idx, vertices ! end_idx))
                    edge_indices
      in c\<lparr>cube_vertices := Some vertices, cube_edges := Some edges\<rparr>)"

definition Cube :: "vec3 \<Rightarrow> fl \<Rightarrow> cube" where
  "Cube origin0 size3 =
     cube_update_geometry
       \<lparr>cube_origin = origin0, cube_size = size3, cube_vertices = None, cube_edges = None\<rparr>"

text \<open>The displacement from the first end point of an edge to the second.\<close>

fun edge_vector :: "vec3 \<times> vec3 \<Rightarrow> vec3" where
  "edge_vector (a, b) = vsub b a"

section \<open>Plane\<close>

text \<open>
  The arrays of \<^verbatim>\<open>Plane._update_geometry\<close> are lists of reals, and lists of rows for the
  two-dimensional ones: from finite input no operation there leaves the finite numbers.
\<close>

type_synonym rmat = "real list list"

text \<open>
  \<^verbatim>\<open>np.linspace(start, stop, num)\<close> with the end point included: a negative count
  raises; the samples are the multiples of the step from \<^verbatim>\<open>start\<close> (of the difference,
  when the count is below 2, or divided first when the step is zero), and with more than one
  sample the last is set to \<^verbatim>\<open>stop\<close>. The source's \<^verbatim>\<open>div\<close> is \<open>dv\<close> here.
\<close>

definition linspace :: "real \<Rightarrow> real \<Rightarrow> int \<Rightarrow> py_error + real list" where
  "linspace start stop num =
     (if num < 0 then Inl ValueError
      else
        let dv = num - 1;
            y = map real [0..<nat num];
            delta = stop - start;
            y = (if 0 < dv then
                   (let step = delta / real_of_int dv
                    in if step = 0 then map (\<lambda>v. v / real_of_int dv * delta) y
                       else map (\<lambda>v. v * step) y)
                 else map (\<lambda>v. v * delta) y);
            y = map (\<lambda>v. v + start) y
        in Inr (if 1 < num then y[length y - 1 := stop] else y))"

text \<open>
  \<^verbatim>\<open>np.meshgrid(x, y)\<close> in its default indexing: one row per element of \<open>y\<close>; the
  first grid repeats \<open>x\<close> in every row, the second holds the element of \<open>y\<close> along its
  row.
\<close>

definition meshgrid :: "real list \<Rightarrow> real list \<Rightarrow> rmat \<times> rmat" where
  "meshgrid x y = (map (\<lambda>v. x) y, map (\<lambda>v. map (\<lambda>w. v) x) y)"

definition zeros_like :: "rmat \<Rightarrow> rmat" where
  "zeros_like a = map (map (\<lambda>v. 0)) a"

definition ones_like :: "real list \<Rightarrow> real list" where
  "ones_like a = map (\<lambda>v. 1) a"

text \<open>
  \<^verbatim>\<open>a @ b\<close> of two-dimensional arrays; \<open>b\<close> has at least one row wherever the source
  multiplies.
\<close>

definition matmul :: "rmat \<Rightarrow> rmat \<Rightarrow> rmat" where
  "matmul a b =
     map (\<lambda>row. map (\<lambda>j. sum_list (map (\<lambda>k. row ! k * b ! k ! j) [0..<length b]))
                    [0..<length (hd b)]) a"

definition radians :: "real \<Rightarrow> real" where
  "radians d = d * (pi / 180)"

text \<open>
  \<^verbatim>\<open>a.reshape(n, m)\<close> of a one-dimensional array of n m elements: rows in order.
\<close>

definition reshape :: "nat \<Rightarrow> nat \<Rightarrow> real list \<Rightarrow> rmat" where
  "reshape n m a = map (\<lambda>i. take m (drop (i * m) a)) [0..<n]"

record plane =
  p_center :: rvec
  p_rotation :: rvec
  p_scale :: real
  p_num_points :: int
  p_surface :: "(rmat \<times> rmat \<times> rmat) option"

text \<open>
  \<^verbatim>\<open>Plane._update_geometry\<close>; the only failure is that of \<^verbatim>\<open>np.linspace\<close>.
\<close>

definition plane_update_geometry :: "plane \<Rightarrow> py_error + plane" where
  "plane_update_geometry p =
     (case linspace (- p_scale p) (p_scale p) (p_num_points p) of
        Inl e \<Rightarrow> Inl e
      | Inr x_plane \<Rightarrow>
     (case linspace (- p_scale p) (p_scale p) (p_num_points p) of
        Inl e \<Rightarrow> Inl e
      | Inr y_plane \<Rightarrow>
     (case (meshgrid x_plane y_plane, p_rotation p, p_center p) of
        ((X_plane, Y_plane), (rot_x, rot_y, rot_z), (center0, center1, center2)) \<Rightarrow>
          let Z_plane = zeros_like X_plane;
              points = [concat X_plane, concat Y_plane, concat Z_plane,
                        ones_like (concat X_plane)];
              rx = radians rot_x; ry = radians rot_y; rz = radians rot_z;
              Rx = [[1, 0, 0, 0],
                    [0, cos rx, - sin rx, 0],
                    [0, sin rx, cos rx, 0],
                    [0, 0, 0, 1]];
              Ry = [[cos ry, 0, sin ry, 0],
                    [0, 1, 0, 0],
                    [- sin ry, 0, cos ry, 0],
                    [0, 0, 0, 1]];
              Rz = [[cos rz, - sin rz, 0, 0],
                    [sin rz, cos rz, 0, 0],
                    [0, 0, 1, 0],
                    [0, 0, 0, 1]];
              T = [[1, 0, 0, center0],
                   [0, 1, 0, center1],
                   [0, 0, 1, center2],
                   [0, 0, 0, 1]];
              transform = matmul (matmul (matmul T Rz) Ry) Rx;
              transformed = matmul transform points;
              n = nat (p_num_points p)
          in Inr (p\<lparr>p_surface := Some
                (reshape n n (transformed ! 0),
                 reshape n n (transformed ! 1),
                 reshape n n (transformed ! 2))\<rparr>))))"

definition Plane :: "rvec \<Rightarrow> rvec \<Rightarrow> real \<Rightarrow> int \<Rightarrow> py_error + plane" where
  "Plane center rotation scale3 num_points =
     plane_update_geometry
       \<lparr>p_center = center, p_rotation = rotation, p_scale = scale3,
        p_num_points = num_points, p_surface = None\<rparr>"

section \<open>Camera with a position of any length\<close>

text \<open>
  The position setter stores \<^verbatim>\<open>np.array(value)\<close> whatever its shape, so the position
  of a camera object is a one-dimensional array of any length; target, up vector and the
  derived vectors have three components and the size is a scalar. A call either returns
  or raises, and in both cases the object is left in some state: a raise does not undo the
  assignments made before it.
\<close>

datatype 'a outcome = Returns 'a | Raises py_error 'a

text \<open>The fields of \<^verbatim>\<open>Camera\<close> again, with the position as a list of components.\<close>

record camera_arr =
  k_position :: "fl list"
  k_up :: vec3
  k_size :: fl
  k_direction :: "vec3 option"
  k_right :: "vec3 option"
  k_vertices :: "vec3 list option"



text \<open>
  \<^verbatim>\<open>_update_vertices\<close>. The right-hand side is evaluated before \<^verbatim>\<open>_vertices\<close> is
  assigned. With a position of three components it is the array of the five vertices. With
  any other length \<^verbatim>\<open>ValueError\<close> is raised and nothing is assigned: the sum
  \<^verbatim>\<open>self.position + ...\<close> does not broadcast for lengths other than one, and for length
  one \<^verbatim>\<open>np.array\<close> refuses rows of different lengths (numpy 1.24 and later).
\<close>

definition update_vertices_arr :: "camera_arr \<Rightarrow> vec3 \<Rightarrow> vec3 \<Rightarrow> camera_arr outcome" where
  "update_vertices_arr c r d =
     (case k_position c of
        [x, y, z] \<Rightarrow>
          Returns (c\<lparr>k_vertices := Some
            [V x y z,
             vadd (V x y z) (vscale (k_size c) (vsub (vadd (vneg r) d) (k_up c))),
             vadd (V x y z) (vscale (k_size c) (vsub (vadd r d) (k_up c))),
             vadd (V x y z) (vscale (k_size c) (vadd (vadd r d) (k_up c))),
             vadd (V x y z) (vscale (k_size c) (vadd (vadd (vneg r) d) (k_up c)))]\<rparr>)
      | _ \<Rightarrow> Raises ValueError c)"

text \<open>
  \<^verbatim>\<open>_update_camera\<close>: right and up are assigned before \<^verbatim>\<open>_update_vertices\<close> runs.
\<close>

definition update_camera_arr :: "camera_arr \<Rightarrow> camera_arr outcome" where
  "update_camera_arr c =
     (case k_direction c of
        None \<Rightarrow> Returns c
      | Some d \<Rightarrow>
          let r0 = cross d (k_up c);
              r = vdivs r0 (norm3 r0);
              u0 = cross r d;
              u = vdivs u0 (norm3 u0)
          in update_vertices_arr (c\<lparr>k_right := Some r, k_up := u\<rparr>) r d)"

text \<open>The two property setters: the field is assigned first.\<close>

definition position_setter :: "camera_arr \<Rightarrow> fl list \<Rightarrow> camera_arr outcome" where
  "position_setter c v = update_camera_arr (c\<lparr>k_position := v\<rparr>)"

definition size_setter :: "camera_arr \<Rightarrow> fl \<Rightarrow> camera_arr outcome" where
  "size_setter c v = update_camera_arr (c\<lparr>k_size := v\<rparr>)"




text \<open>A camera with a position of three components, as a camera object.\<close>

fun vlist :: "vec3 \<Rightarrow> fl list" where
  "vlist (V x y z) = [x, y, z]"

definition arr_of :: "camera \<Rightarrow> camera_arr" where
  "arr_of c =
     \<lparr>k_position = vlist (c_position c), k_up = c_up c, k_size = c_size c,
      k_direction = c_direction c, k_right = c_right c, k_vertices = c_vertices c\<rparr>"




section \<open>Vector algebra\<close>

lemma cross_vfin: "cross (vfin a) (vfin b) = vfin (rcross a b)"
  by (cases a; cases b) (simp add: fsub_def)

lemma vsub_vfin: "vsub (vfin a) (vfin b) = vfin (rsub a b)"
  by (cases a; cases b) (simp add: fsub_def)

lemma vdot_vfin: "vdot (vfin a) (vfin b) = Fin (rdot a b)"
  by (cases a; cases b) simp

lemma rdot_self_nonneg: "0 \<le> rdot a a"
  by (cases a) simp

lemma rdot_self_zero: "rdot a a = 0 \<longleftrightarrow> a = (0, 0, 0)"
  by (cases a) (auto simp: add_nonneg_eq_0_iff)

lemma norm3_vfin: "norm3 (vfin a) = Fin (rnorm a)"
proof (cases a)
  case (fields x y z)
  have "\<not> x * x + y * y + z * z < 0"
    by (simp add: not_less)
  with fields show ?thesis by (simp add: rnorm_def)
qed

lemma rnorm_zero: "rnorm a = 0 \<longleftrightarrow> a = (0, 0, 0)"
  by (simp add: rnorm_def rdot_self_zero)

lemma rnorm_nonneg: "0 \<le> rnorm a"
  by (simp add: rnorm_def rdot_self_nonneg)

lemma vdivs_vfin: "k \<noteq> 0 \<Longrightarrow> vdivs (vfin a) (Fin k) = vfin (rscale (1 / k) a)"
  by (cases a) simp

lemma vdivs_zero: "vdivs (vfin (0, 0, 0)) (Fin 0) = nanv"
  by (simp add: nanv_def)

lemma normalize_vfin:
  "a \<noteq> (0, 0, 0) \<Longrightarrow> vdivs (vfin a) (norm3 (vfin a)) = vfin (rnormalize a)"
  by (simp add: norm3_vfin vdivs_vfin rnorm_zero rnormalize_def)

lemma normalize_zero: "vdivs (vfin (0, 0, 0)) (norm3 (vfin (0, 0, 0))) = nanv"
  by (simp add: nanv_def rnorm_def)

lemma rdot_rscale: "rdot (rscale k a) (rscale l b) = k * l * rdot a b"
  by (cases a; cases b) (simp add: algebra_simps)

lemma rdot_normalize_self: "a \<noteq> (0, 0, 0) \<Longrightarrow> rdot (rnormalize a) (rnormalize a) = 1"
proof -
  assume "a \<noteq> (0, 0, 0)"
  then have pos: "0 < rdot a a"
    using rdot_self_nonneg [of a] rdot_self_zero [of a] by linarith
  have "rnorm a * rnorm a = rdot a a"
    using rdot_self_nonneg [of a] by (simp add: rnorm_def)
  then have "(1 / rnorm a) * (1 / rnorm a) * rdot a a = 1"
    using pos by (simp add: field_simps)
  then show ?thesis
    unfolding rnormalize_def rdot_rscale .
qed

lemma rdot_cross_left: "rdot (rcross a b) a = 0"
  by (cases a; cases b) (simp add: algebra_simps)

lemma rdot_cross_right: "rdot (rcross a b) b = 0"
  by (cases a; cases b) (simp add: algebra_simps)

lemma rdot_commute: "rdot a b = rdot b a"
  by (cases a; cases b) (simp add: algebra_simps)

lemma rcross_rscale_left: "rcross (rscale k a) b = rscale k (rcross a b)"
  by (cases a; cases b) (simp add: algebra_simps)

lemma lagrange: "rdot (rcross a b) (rcross a b) = rdot a a * rdot b b - rdot a b * rdot a b"
  by (cases a; cases b) (simp add: algebra_simps)

lemma triple: "rcross (rcross a b) c = rsub (rscale (rdot a c) b) (rscale (rdot b c) a)"
  by (cases a; cases b; cases c) (simp add: algebra_simps)

lemma rcross_anti: "rcross a b = rscale (- 1) (rcross b a)"
  by (cases a; cases b) (simp add: algebra_simps)

lemma rnorm_one: "rdot a a = 1 \<Longrightarrow> rnorm a = 1"
  by (simp add: rnorm_def)

section \<open>The camera basis\<close>

lemma update_vertices_fields [simp]:
  "c_direction (update_vertices c r d) = c_direction c"
  "c_right (update_vertices c r d) = c_right c"
  "c_up (update_vertices c r d) = c_up c"
  "c_position (update_vertices c r d) = c_position c"
  "c_size (update_vertices c r d) = c_size c"
  by (simp_all add: update_vertices_def)

lemma normalize_unit: "rnorm a = 1 \<Longrightarrow> vdivs (vfin a) (norm3 (vfin a)) = vfin a"
proof -
  assume n1: "rnorm a = 1"
  have "vdivs (vfin a) (norm3 (vfin a)) = vdivs (vfin a) (Fin 1)"
    by (simp only: norm3_vfin n1)
  also have "\<dots> = vfin (rscale (1 / 1) a)"
    by (rule vdivs_vfin) simp
  also have "\<dots> = vfin a"
    by (cases a) simp
  finally show ?thesis .
qed

text \<open>The basis recomputed from a finite unit direction and a finite up vector.\<close>

lemma update_camera_basis:
  assumes d: "c_direction c = Some (vfin d)" and h: "c_up c = vfin h"
    and dd: "rdot d d = 1" and nz: "rcross d h \<noteq> (0, 0, 0)"
  shows "c_right (update_camera c) = Some (vfin (rnormalize (rcross d h)))"
    and "c_up (update_camera c) = vfin (rcross (rnormalize (rcross d h)) d)"
    and "c_direction (update_camera c) = Some (vfin d)"
proof -
  let ?r = "rnormalize (rcross d h)"
  have r: "vdivs (cross (vfin d) (vfin h)) (norm3 (cross (vfin d) (vfin h))) = vfin ?r"
    using nz by (simp add: cross_vfin normalize_vfin)
  have rr: "rdot ?r ?r = 1" using nz by (rule rdot_normalize_self)
  have rd: "rdot ?r d = 0"
    unfolding rnormalize_def
    using rdot_rscale [of "1 / rnorm (rcross d h)" "rcross d h" 1 d] rdot_cross_left [of d h]
    by (cases d) simp
  have "rdot (rcross ?r d) (rcross ?r d) = 1"
    by (simp add: lagrange rr dd rd)
  then have n1: "rnorm (rcross ?r d) = 1" by (rule rnorm_one)
  have u: "vdivs (cross (vfin ?r) (vfin d)) (norm3 (cross (vfin ?r) (vfin d))) = vfin (rcross ?r d)"
    by (simp only: cross_vfin normalize_unit [OF n1])
  show "c_right (update_camera c) = Some (vfin ?r)"
    and "c_up (update_camera c) = vfin (rcross ?r d)"
    and "c_direction (update_camera c) = Some (vfin d)"
    using d h r u by (simp_all add: update_camera_def Let_def)
qed

lemma basis_facts:
  assumes dd: "rdot d d = 1" and nz: "rcross d h \<noteq> (0, 0, 0)"
  defines "r \<equiv> rnormalize (rcross d h)"
  shows "rdot r r = 1" and "rdot r d = 0" and "rdot (rcross r d) (rcross r d) = 1"
    and "rcross (rcross r d) r = d" and "rcross r (rcross r d) = rscale (- 1) d"
proof -
  show rr: "rdot r r = 1" unfolding r_def using nz by (rule rdot_normalize_self)
  show rd: "rdot r d = 0"
    unfolding r_def rnormalize_def
    using rdot_rscale [of "1 / rnorm (rcross d h)" "rcross d h" 1 d] rdot_cross_left [of d h]
    by (cases d) simp
  show "rdot (rcross r d) (rcross r d) = 1"
    by (simp add: lagrange rr dd rd)
  have dr: "rdot d r = 0" using rd by (simp add: rdot_commute)
  have "rcross (rcross r d) r = rsub (rscale (rdot r r) d) (rscale (rdot d r) r)"
    by (rule triple)
  also have "\<dots> = d"
    unfolding rr dr by (cases d; cases r) simp
  finally show t: "rcross (rcross r d) r = d" .
  show "rcross r (rcross r d) = rscale (- 1) d"
    using rcross_anti [of r "rcross r d"] by (simp add: t)
qed

lemma norm3_Fin_finite: "norm3 v = Fin k \<Longrightarrow> \<exists>a. v = vfin a"
proof (cases v)
  case (V x y z)
  assume "norm3 v = Fin k"
  with V have "\<exists>a b c. x = Fin a \<and> y = Fin b \<and> z = Fin c"
    by (cases x; cases y; cases z) (simp_all split: if_splits)
  then obtain a b c where "x = Fin a" "y = Fin b" "z = Fin c" by blast
  with V have "v = vfin (a, b, c)" by simp
  then show ?thesis ..
qed

lemma norm3_one_rdot: "norm3 (vfin a) = Fin 1 \<Longrightarrow> rdot a a = 1"
  by (simp add: norm3_vfin rnorm_def)

lemma orthonormal_update:
  assumes d: "c_direction c = Some (vfin d)" and h: "c_up c = vfin h"
    and dd: "rdot d d = 1" and nz: "rcross d h \<noteq> (0, 0, 0)"
  shows "orthonormal (update_camera c)"
proof -
  let ?r = "rnormalize (rcross d h)"
  note b = update_camera_basis [OF d h dd nz]
  note f = basis_facts [OF dd nz]
  have "rdot ?r (rcross ?r d) = 0"
    using rdot_cross_left [of ?r d] by (simp add: rdot_commute)
  moreover have "rdot (rcross ?r d) d = 0" by (rule rdot_cross_right)
  ultimately show ?thesis
    unfolding orthonormal_def
    by (simp add: b vdot_vfin norm3_vfin f rnorm_one dd)
qed

lemma orthonormal_finite:
  assumes "orthonormal c"
  obtains d h where "c_direction c = Some (vfin d)" and "c_up c = vfin h"
    and "rdot d d = 1" and "rcross d h \<noteq> (0, 0, 0)"
proof -
  from assms obtain r dv where rd: "c_right c = Some r" "c_direction c = Some dv"
    by (auto simp: orthonormal_def split: option.splits)
  with assms have o: "vdot (c_up c) dv = Fin 0" "norm3 (c_up c) = Fin 1" "norm3 dv = Fin 1"
    by (simp_all add: orthonormal_def)
  from o(3) obtain d where dv: "dv = vfin d" using norm3_Fin_finite by blast
  from o(2) obtain h where hv: "c_up c = vfin h" using norm3_Fin_finite by blast
  have dd: "rdot d d = 1" using o(3) dv by (simp add: norm3_one_rdot)
  have hh: "rdot h h = 1" using o(2) hv by (simp add: norm3_one_rdot)
  have hd: "rdot d h = 0" using o(1) dv hv by (simp add: vdot_vfin rdot_commute)
  have "rdot (rcross d h) (rcross d h) = 1"
    by (simp add: lagrange dd hh hd)
  then have "rcross d h \<noteq> (0, 0, 0)" by auto
  with rd dv hv dd that show thesis by blast
qed

lemma orthonormal_set_position: "orthonormal c \<Longrightarrow> orthonormal (set_position c v)"
proof -
  assume "orthonormal c"
  then obtain d h where "c_direction c = Some (vfin d)" "c_up c = vfin h"
    "rdot d d = 1" "rcross d h \<noteq> (0, 0, 0)" by (rule orthonormal_finite)
  then show ?thesis
    unfolding set_position_def by (intro orthonormal_update [of _ d h]) simp_all
qed

lemma orthonormal_set_size: "orthonormal c \<Longrightarrow> orthonormal (set_size c s)"
proof -
  assume "orthonormal c"
  then obtain d h where "c_direction c = Some (vfin d)" "c_up c = vfin h"
    "rdot d d = 1" "rcross d h \<noteq> (0, 0, 0)" by (rule orthonormal_finite)
  then show ?thesis
    unfolding set_size_def by (intro orthonormal_update [of _ d h]) simp_all
qed

lemma orthonormal_setters:
  "orthonormal c \<Longrightarrow> list_all is_setter ops \<Longrightarrow> orthonormal (foldl apply_op c ops)"
proof (induction ops arbitrary: c)
  case Nil
  then show ?case by simp
next
  case (Cons x ops)
  then show ?case
    by (cases x) (simp_all add: orthonormal_set_position orthonormal_set_size)
qed

lemma rscale_nonzero: "k \<noteq> 0 \<Longrightarrow> a \<noteq> (0, 0, 0) \<Longrightarrow> rscale k a \<noteq> (0, 0, 0)"
  by (cases a) auto

lemma rsub_zero: "rsub t p = (0, 0, 0) \<longleftrightarrow> t = p"
  by (cases t; cases p) auto

lemma rcross_zero_left: "rcross (0, 0, 0) h = (0, 0, 0)"
  by (cases h) simp

lemma look_at_direction:
  assumes p: "c_position c = vfin p" and tp: "t \<noteq> p"
  shows "look_at c (vfin t) =
           update_camera (c\<lparr>c_direction := Some (vfin (rnormalize (rsub t p)))\<rparr>)"
  using tp by (simp add: look_at_def p vsub_vfin normalize_vfin rsub_zero Let_def)

lemma nondegenerate_direction:
  assumes nz: "rcross (rsub t p) h \<noteq> (0, 0, 0)"
  shows "t \<noteq> p" and "rdot (rnormalize (rsub t p)) (rnormalize (rsub t p)) = 1"
    and "rcross (rnormalize (rsub t p)) h \<noteq> (0, 0, 0)"
proof -
  show tp: "t \<noteq> p"
    using nz rcross_zero_left [of h] rsub_zero [of t p] by auto
  then have z: "rsub t p \<noteq> (0, 0, 0)" by (simp add: rsub_zero)
  then show "rdot (rnormalize (rsub t p)) (rnormalize (rsub t p)) = 1"
    by (rule rdot_normalize_self)
  have "rnorm (rsub t p) \<noteq> 0" using z by (simp add: rnorm_zero)
  then have "1 / rnorm (rsub t p) \<noteq> 0" by simp
  then show "rcross (rnormalize (rsub t p)) h \<noteq> (0, 0, 0)"
    unfolding rnormalize_def rcross_rscale_left using nz by (rule rscale_nonzero)
qed

lemma look_at_fields:
  assumes p: "c_position c = vfin p" and h: "c_up c = vfin h"
    and nz: "rcross (rsub t p) h \<noteq> (0, 0, 0)"
  defines "d \<equiv> rnormalize (rsub t p)"
  defines "r \<equiv> rnormalize (rcross d h)"
  shows "c_direction (look_at c (vfin t)) = Some (vfin d)"
    and "c_right (look_at c (vfin t)) = Some (vfin r)"
    and "c_up (look_at c (vfin t)) = vfin (rcross r d)"
proof -
  note n = nondegenerate_direction [OF nz]
  have l: "look_at c (vfin t) = update_camera (c\<lparr>c_direction := Some (vfin d)\<rparr>)"
    unfolding d_def using p n(1) by (rule look_at_direction)
  have d': "c_direction (c\<lparr>c_direction := Some (vfin d)\<rparr>) = Some (vfin d)" by simp
  have h': "c_up (c\<lparr>c_direction := Some (vfin d)\<rparr>) = vfin h" using h by simp
  note b = update_camera_basis [OF d' h' n(2) [folded d_def] n(3) [folded d_def]]
  show "c_direction (look_at c (vfin t)) = Some (vfin d)"
    and "c_right (look_at c (vfin t)) = Some (vfin r)"
    and "c_up (look_at c (vfin t)) = vfin (rcross r d)"
    unfolding l r_def by (rule b)+
qed

lemma look_at_orthonormal_once:
  assumes p: "c_position c = vfin p" and h: "c_up c = vfin h"
    and nz: "rcross (rsub t p) h \<noteq> (0, 0, 0)"
  shows "orthonormal (look_at c (vfin t))"
proof -
  note n = nondegenerate_direction [OF nz]
  have l: "look_at c (vfin t) =
      update_camera (c\<lparr>c_direction := Some (vfin (rnormalize (rsub t p)))\<rparr>)"
    using p n(1) by (rule look_at_direction)
  show ?thesis
    unfolding l
    by (rule orthonormal_update [OF _ _ n(2) n(3)]) (simp_all add: h)
qed

section \<open>Claims about the camera basis\<close>

text \<open>
  Claim C1. Let the camera hold a finite position \<open>p\<close> and a finite up vector \<open>h\<close>, and
  let the target \<open>t\<close> be distinct from \<open>p\<close> with \<open>t - p\<close> not parallel to \<open>h\<close> (their
  cross product is not the zero vector). After \<^verbatim>\<open>look_at\<close> the vectors right, up and
  direction are defined, their pairwise dot products are 0 and each has norm 1; this still
  holds after any sequence of position and size assignments that follows. Arithmetic is
  exact.
\<close>

theorem look_at_orthonormal:
  assumes "c_position c = vfin p" and "c_up c = vfin h"
    and "t \<noteq> p" and "rcross (rsub t p) h \<noteq> (0, 0, 0)"
    and "list_all is_setter ops"
  shows "orthonormal (foldl apply_op (look_at c (vfin t)) ops)"
  using assms by (intro orthonormal_setters look_at_orthonormal_once)

text \<open>The viewer's camera looking at the centre of the unit cube, then moved and resized.\<close>

theorem look_at_orthonormal_witness:
  "c_position default_camera = vfin (2, - 4, 2) \<and> c_up default_camera = vfin (0, 0, 1) \<and>
   (1 / 2, 1 / 2, 1 / 2) \<noteq> ((2, - 4, 2) :: rvec) \<and>
   rcross (rsub (1 / 2, 1 / 2, 1 / 2) (2, - 4, 2)) (0, 0, 1) \<noteq> (0, 0, 0) \<and>
   list_all is_setter [SetPosition (vfin (1, 2, 3)), SetSize (Fin 2)] \<and>
   orthonormal (foldl apply_op (look_at default_camera (vfin (1 / 2, 1 / 2, 1 / 2)))
     [SetPosition (vfin (1, 2, 3)), SetSize (Fin 2)])"
proof -
  have a: "c_position default_camera = vfin (2, - 4, 2)"
    and b: "c_up default_camera = vfin (0, 0, 1)"
    by (simp_all add: default_camera_def Camera_def)
  have c: "(1 / 2, 1 / 2, 1 / 2) \<noteq> ((2, - 4, 2) :: rvec)" by simp
  have d: "rcross (rsub (1 / 2, 1 / 2, 1 / 2) (2, - 4, 2)) (0, 0, 1) \<noteq> (0, 0, 0)" by simp
  have e: "list_all is_setter [SetPosition (vfin (1, 2, 3)), SetSize (Fin 2)]" by simp
  from look_at_orthonormal [OF a b c d e] a b c d e show ?thesis by blast
qed

text \<open>
  Claim C2, as the code has it. Under the hypotheses of C1, the cross product of right and
  up after \<^verbatim>\<open>look_at\<close> is the negated direction, not the direction.
\<close>

theorem look_at_right_cross_up:
  assumes "c_position c = vfin p" and "c_up c = vfin h"
    and "t \<noteq> p" and "rcross (rsub t p) h \<noteq> (0, 0, 0)"
  shows "\<exists>r d. c_right (look_at c (vfin t)) = Some r \<and>
           c_direction (look_at c (vfin t)) = Some d \<and>
           cross r (c_up (look_at c (vfin t))) = vneg d"
proof -
  let ?d = "rnormalize (rsub t p)"
  let ?r = "rnormalize (rcross ?d h)"
  note n = nondegenerate_direction [OF assms(4)]
  note f = look_at_fields [OF assms(1,2,4)]
  have "cross (vfin ?r) (vfin (rcross ?r ?d)) = vneg (vfin ?d)"
    unfolding cross_vfin basis_facts(5) [OF n(2) n(3)]
    by (cases ?d) simp
  with f show ?thesis by simp
qed

text \<open>
  Claim C10. Under the hypotheses of C1, after \<^verbatim>\<open>look_at\<close> the cross product of up and
  right, the middle column of the rotation matrix of the projection, is the direction itself;
  the matrix with columns right, up x right, up is the matrix with columns right,
  direction, up.
\<close>

theorem look_at_up_cross_right:
  assumes "c_position c = vfin p" and "c_up c = vfin h"
    and "t \<noteq> p" and "rcross (rsub t p) h \<noteq> (0, 0, 0)"
  shows "\<exists>r d. c_right (look_at c (vfin t)) = Some r \<and>
           c_direction (look_at c (vfin t)) = Some d \<and>
           cross (c_up (look_at c (vfin t))) r = d \<and>
           column_stack r (cross (c_up (look_at c (vfin t))) r) (c_up (look_at c (vfin t))) =
           column_stack r d (c_up (look_at c (vfin t)))"
proof -
  let ?d = "rnormalize (rsub t p)"
  let ?r = "rnormalize (rcross ?d h)"
  note n = nondegenerate_direction [OF assms(4)]
  note f = look_at_fields [OF assms(1,2,4)]
  have "cross (vfin (rcross ?r ?d)) (vfin ?r) = vfin ?d"
    unfolding cross_vfin basis_facts(4) [OF n(2) n(3)] ..
  with f show ?thesis by simp
qed

text \<open>The camera at the origin with up vector (0, 0, 1), looking along the first axis.\<close>

lemma axis_look_at:
  "c_direction (look_at axis_camera (vfin (1, 0, 0))) = Some (vfin (1, 0, 0))"
  "c_right (look_at axis_camera (vfin (1, 0, 0))) = Some (vfin (0, - 1, 0))"
  "c_up (look_at axis_camera (vfin (1, 0, 0))) = vfin (0, 0, 1)"
proof -
  have a: "c_position axis_camera = vfin (0, 0, 0)" and b: "c_up axis_camera = vfin (0, 0, 1)"
    by (simp_all add: axis_camera_def Camera_def)
  have c: "rcross (rsub (1, 0, 0) (0, 0, 0)) (0, 0, 1) \<noteq> (0, 0, 0)" by simp
  note f = look_at_fields [OF a b c]
  have d: "rnormalize (rsub (1, 0, 0) (0, 0, 0)) = (1, 0, 0)"
    by (simp add: rnormalize_def rnorm_def)
  have r: "rnormalize (rcross (1, 0, 0) (0, 0, 1)) = (0, - 1, 0)"
    by (simp add: rnormalize_def rnorm_def)
  show "c_direction (look_at axis_camera (vfin (1, 0, 0))) = Some (vfin (1, 0, 0))"
    "c_right (look_at axis_camera (vfin (1, 0, 0))) = Some (vfin (0, - 1, 0))"
    "c_up (look_at axis_camera (vfin (1, 0, 0))) = vfin (0, 0, 1)"
    using f unfolding d r by simp_all
qed

text \<open>
  Claim C2 as stated fails there: right is (0, -1, 0), up is (0, 0, 1), and their cross
  product is (-1, 0, 0) while the direction is (1, 0, 0).
\<close>

theorem right_cross_up_counterexample:
  "c_right (look_at axis_camera (vfin (1, 0, 0))) = Some (vfin (0, - 1, 0)) \<and>
   c_direction (look_at axis_camera (vfin (1, 0, 0))) = Some (vfin (1, 0, 0)) \<and>
   cross (vfin (0, - 1, 0)) (c_up (look_at axis_camera (vfin (1, 0, 0)))) = vfin (- 1, 0, 0) \<and>
   vfin (- 1, 0, 0) \<noteq> vfin (1, 0, 0)"
  using axis_look_at by (simp add: fsub_def)

text \<open>The claims C2 and C10 at the viewer's camera looking at the centre of the unit cube.\<close>

theorem look_at_right_cross_up_witness:
  "c_position default_camera = vfin (2, - 4, 2) \<and> c_up default_camera = vfin (0, 0, 1) \<and>
   (1 / 2, 1 / 2, 1 / 2) \<noteq> ((2, - 4, 2) :: rvec) \<and>
   rcross (rsub (1 / 2, 1 / 2, 1 / 2) (2, - 4, 2)) (0, 0, 1) \<noteq> (0, 0, 0) \<and>
   (\<exists>r d. c_right (look_at default_camera (vfin (1 / 2, 1 / 2, 1 / 2))) = Some r \<and>
      c_direction (look_at default_camera (vfin (1 / 2, 1 / 2, 1 / 2))) = Some d \<and>
      cross r (c_up (look_at default_camera (vfin (1 / 2, 1 / 2, 1 / 2)))) = vneg d)"
proof -
  have a: "c_position default_camera = vfin (2, - 4, 2)"
    and b: "c_up default_camera = vfin (0, 0, 1)"
    by (simp_all add: default_camera_def Camera_def)
  have c: "(1 / 2, 1 / 2, 1 / 2) \<noteq> ((2, - 4, 2) :: rvec)" by simp
  have d: "rcross (rsub (1 / 2, 1 / 2, 1 / 2) (2, - 4, 2)) (0, 0, 1) \<noteq> (0, 0, 0)" by simp
  from look_at_right_cross_up [OF a b c d] a b c d show ?thesis by blast
qed

theorem look_at_up_cross_right_witness:
  "c_position default_camera = vfin (2, - 4, 2) \<and> c_up default_camera = vfin (0, 0, 1) \<and>
   (1 / 2, 1 / 2, 1 / 2) \<noteq> ((2, - 4, 2) :: rvec) \<and>
   rcross (rsub (1 / 2, 1 / 2, 1 / 2) (2, - 4, 2)) (0, 0, 1) \<noteq> (0, 0, 0) \<and>
   (\<exists>r d. c_right (look_at default_camera (vfin (1 / 2, 1 / 2, 1 / 2))) = Some r \<and>
      c_direction (look_at default_camera (vfin (1 / 2, 1 / 2, 1 / 2))) = Some d \<and>
      cross (c_up (look_at default_camera (vfin (1 / 2, 1 / 2, 1 / 2)))) r = d \<and>
      column_stack r (cross (c_up (look_at default_camera (vfin (1 / 2, 1 / 2, 1 / 2)))) r)
        (c_up (look_at default_camera (vfin (1 / 2, 1 / 2, 1 / 2)))) =
      column_stack r d (c_up (look_at default_camera (vfin (1 / 2, 1 / 2, 1 / 2)))))"
proof -
  have a: "c_position default_camera = vfin (2, - 4, 2)"
    and b: "c_up default_camera = vfin (0, 0, 1)"
    by (simp_all add: default_camera_def Camera_def)
  have c: "(1 / 2, 1 / 2, 1 / 2) \<noteq> ((2, - 4, 2) :: rvec)" by simp
  have d: "rcross (rsub (1 / 2, 1 / 2, 1 / 2) (2, - 4, 2)) (0, 0, 1) \<noteq> (0, 0, 0)" by simp
  from look_at_up_cross_right [OF a b c d] a b c d show ?thesis by blast
qed

section \<open>Degenerate directions\<close>

lemma fadd_NaN [simp]: "fadd x NaN = NaN"
  by (cases x) simp_all

lemma fmul_NaN [simp]: "fmul x NaN = NaN"
  by (cases x) simp_all

lemma fdiv_NaN [simp]: "fdiv x NaN = NaN"
  by (cases x) simp_all

lemma fsub_NaN [simp]: "fsub x NaN = NaN" "fsub NaN x = NaN"
  by (simp_all add: fsub_def)

lemma cross_nanv [simp]: "cross nanv v = nanv" "cross v nanv = nanv"
  by (cases v; simp add: nanv_def)+

lemma norm3_nanv [simp]: "norm3 nanv = NaN"
  by (simp add: nanv_def)

lemma vdivs_NaN [simp]: "vdivs v NaN = nanv"
  by (cases v) (simp add: nanv_def)

lemma vadd_nanv [simp]: "vadd v nanv = nanv" "vadd nanv v = nanv"
  by (cases v; simp add: nanv_def)+

lemma vsub_nanv [simp]: "vsub v nanv = nanv" "vsub nanv v = nanv"
  by (cases v; simp add: nanv_def)+

lemma vneg_nanv [simp]: "vneg nanv = nanv"
  by (simp add: nanv_def)

lemma vscale_nanv [simp]: "vscale s nanv = nanv"
  by (simp add: nanv_def)

lemma vsub_vadd_vneg: "vsub a b = vadd a (vneg b)"
  by (cases a; cases b) (simp add: fsub_def)

text \<open>A direction or a right vector of NaN components spoils the whole basis.\<close>

lemma update_camera_nan_direction:
  "c_direction c = Some nanv \<Longrightarrow>
   update_camera c =
     c\<lparr>c_right := Some nanv, c_up := nanv,
       c_vertices := Some [c_position c, nanv, nanv, nanv, nanv]\<rparr>"
  by (simp add: update_camera_def update_vertices_def)

lemma update_camera_parallel:
  assumes d: "c_direction c = Some (vfin d)" and h: "c_up c = vfin h"
    and z: "rcross d h = (0, 0, 0)"
  shows "update_camera c =
     c\<lparr>c_right := Some nanv, c_up := nanv,
       c_vertices := Some [c_position c, nanv, nanv, nanv, nanv]\<rparr>"
proof -
  have "vdivs (cross (vfin d) (vfin h)) (norm3 (cross (vfin d) (vfin h))) = nanv"
    unfolding cross_vfin z by (rule normalize_zero)
  then show ?thesis
    using d h by (simp add: update_camera_def update_vertices_def)
qed

lemma look_at_same:
  assumes p: "c_position c = vfin p"
  shows "look_at c (vfin p) =
     c\<lparr>c_direction := Some nanv, c_right := Some nanv, c_up := nanv,
       c_vertices := Some [vfin p, nanv, nanv, nanv, nanv]\<rparr>"
proof -
  have "rsub p p = (0, 0, 0)" by (simp add: rsub_zero)
  then have "vdivs (vsub (vfin p) (vfin p)) (norm3 (vsub (vfin p) (vfin p))) = nanv"
    unfolding vsub_vfin by (simp only: normalize_zero)
  then show ?thesis
    using p by (simp add: look_at_def Let_def update_camera_nan_direction)
qed

lemma look_at_parallel:
  assumes p: "c_position c = vfin p" and h: "c_up c = vfin h"
    and tp: "t \<noteq> p" and z: "rcross (rsub t p) h = (0, 0, 0)"
  shows "look_at c (vfin t) =
     c\<lparr>c_direction := Some (vfin (rnormalize (rsub t p))), c_right := Some nanv, c_up := nanv,
       c_vertices := Some [vfin p, nanv, nanv, nanv, nanv]\<rparr>"
proof -
  have "rcross (rnormalize (rsub t p)) h = (0, 0, 0)"
    unfolding rnormalize_def rcross_rscale_left z by simp
  then have "update_camera (c\<lparr>c_direction := Some (vfin (rnormalize (rsub t p)))\<rparr>) =
     c\<lparr>c_direction := Some (vfin (rnormalize (rsub t p))), c_right := Some nanv, c_up := nanv,
       c_vertices := Some [vfin p, nanv, nanv, nanv, nanv]\<rparr>"
    using p h by (subst update_camera_parallel [of _ "rnormalize (rsub t p)" h]) simp_all
  then show ?thesis
    unfolding look_at_direction [OF p tp] .
qed

section \<open>The frustum vertices\<close>

lemma frustum_ok_update_camera:
  "(c_direction c = None \<Longrightarrow> c_vertices c = None) \<Longrightarrow> frustum_ok (update_camera c)"
  by (cases "c_direction c")
    (simp_all add: frustum_ok_def update_camera_def update_vertices_def Let_def
      frustum_def corner_def vsub_vadd_vneg)

lemma frustum_ok_None: "frustum_ok c \<Longrightarrow> c_direction c = None \<Longrightarrow> c_vertices c = None"
  by (simp add: frustum_ok_def)

lemma frustum_ok_apply_op:
  assumes "frustum_ok c"
  shows "frustum_ok (apply_op c x)"
proof (cases x)
  case (SetPosition v)
  show ?thesis
    unfolding SetPosition apply_op.simps set_position_def
    by (rule frustum_ok_update_camera) (simp add: frustum_ok_None [OF assms])
next
  case (SetSize s)
  show ?thesis
    unfolding SetSize apply_op.simps set_size_def
    by (rule frustum_ok_update_camera) (simp add: frustum_ok_None [OF assms])
next
  case (LookAt t)
  show ?thesis
    unfolding LookAt apply_op.simps look_at_def Let_def
    by (rule frustum_ok_update_camera) simp
qed

lemma frustum_ok_Camera: "frustum_ok (Camera p u s)"
  by (simp add: frustum_ok_def Camera_def)

lemma frustum_ok_foldl: "frustum_ok c \<Longrightarrow> frustum_ok (foldl apply_op c ops)"
  by (induction ops arbitrary: c) (simp_all add: frustum_ok_apply_op)

text \<open>
  Claim C7. Take a camera as constructed and apply any sequence of position assignments,
  size assignments and \<^verbatim>\<open>look_at\<close> calls. Whenever the direction is defined
  afterwards, so is right, the vertex array has exactly five entries, the first is the
  position, and the array is the frustum of the current position, size, right, direction
  and up: the corners position + size (s_r right + direction + s_u up) in the order
  (-,-), (+,-), (+,+), (-,+).
\<close>

theorem frustum_vertices:
  assumes "c_direction (foldl apply_op (Camera p u s) ops) = Some d"
  shows "\<exists>r v1 v2 v3 v4.
           c_right (foldl apply_op (Camera p u s) ops) = Some r \<and>
           c_vertices (foldl apply_op (Camera p u s) ops) =
             Some [c_position (foldl apply_op (Camera p u s) ops), v1, v2, v3, v4] \<and>
           [c_position (foldl apply_op (Camera p u s) ops), v1, v2, v3, v4] =
             frustum (c_position (foldl apply_op (Camera p u s) ops))
               (c_size (foldl apply_op (Camera p u s) ops)) r d
               (c_up (foldl apply_op (Camera p u s) ops))"
proof -
  let ?c = "foldl apply_op (Camera p u s) ops"
  have "frustum_ok ?c" by (intro frustum_ok_foldl frustum_ok_Camera)
  with assms obtain r where r: "c_right ?c = Some r"
    and v: "c_vertices ?c = Some (frustum (c_position ?c) (c_size ?c) r d (c_up ?c))"
    by (auto simp: frustum_ok_def split: option.splits)
  show ?thesis
    using r v unfolding frustum_def by blast
qed

text \<open>The viewer's camera after looking at the centre of the unit cube and a resize.\<close>

theorem frustum_vertices_witness:
  "c_direction (foldl apply_op default_camera
      [LookAt (vfin (1 / 2, 1 / 2, 1 / 2)), SetSize (Fin 2)]) =
     Some (vfin (rnormalize (rsub (1 / 2, 1 / 2, 1 / 2) (2, - 4, 2)))) \<and>
   (\<exists>r v1 v2 v3 v4.
      c_right (foldl apply_op default_camera
        [LookAt (vfin (1 / 2, 1 / 2, 1 / 2)), SetSize (Fin 2)]) = Some r \<and>
      c_vertices (foldl apply_op default_camera
        [LookAt (vfin (1 / 2, 1 / 2, 1 / 2)), SetSize (Fin 2)]) =
        Some [vfin (2, - 4, 2), v1, v2, v3, v4])"
proof -
  let ?t = "(1 / 2, 1 / 2, 1 / 2) :: rvec"
  let ?ops = "[LookAt (vfin ?t), SetSize (Fin 2)]"
  have a: "c_position default_camera = vfin (2, - 4, 2)"
    and b: "c_up default_camera = vfin (0, 0, 1)"
    by (simp_all add: default_camera_def Camera_def)
  have c: "rcross (rsub ?t (2, - 4, 2)) (0, 0, 1) \<noteq> (0, 0, 0)" by simp
  have d1: "c_direction (look_at default_camera (vfin ?t)) =
      Some (vfin (rnormalize (rsub ?t (2, - 4, 2))))"
    by (rule look_at_fields(1) [OF a b c])
  have sz: "\<And>c s. c_direction (set_size c s) = c_direction c"
    by (simp add: set_size_def update_camera_def Let_def split: option.splits)
  have pz: "\<And>c s. c_position (set_size c s) = c_position c"
    by (simp add: set_size_def update_camera_def Let_def split: option.splits)
  have pl: "\<And>c t. c_position (look_at c t) = c_position c"
    by (simp add: look_at_def update_camera_def Let_def split: option.splits)
  have d: "c_direction (foldl apply_op default_camera ?ops) =
      Some (vfin (rnormalize (rsub ?t (2, - 4, 2))))"
    by (simp only: foldl.simps apply_op.simps sz d1)
  have pos: "c_position (foldl apply_op default_camera ?ops) = vfin (2, - 4, 2)"
    by (simp only: foldl.simps apply_op.simps pz pl a)
  from frustum_vertices [of "vfin (2, - 4, 2)" "vfin (0, 0, 1)" "Fin (3 / 10)" ?ops,
      folded default_camera_def, OF d] d pos
  show ?thesis by metis
qed

section \<open>Claims about degenerate input\<close>

text \<open>
  Claim C4, as the code has it. \<^verbatim>\<open>look_at\<close> with the target equal to the (finite)
  position of the camera does not fail: it returns, and direction, right and up are
  vectors of NaN components, as are the four base corners of the frustum.
\<close>

theorem look_at_own_position:
  assumes "c_position c = vfin p"
  shows "c_direction (look_at c (vfin p)) = Some nanv \<and>
         c_right (look_at c (vfin p)) = Some nanv \<and>
         c_up (look_at c (vfin p)) = nanv \<and>
         c_vertices (look_at c (vfin p)) = Some [vfin p, nanv, nanv, nanv, nanv]"
  by (simp add: look_at_same [OF assms])

text \<open>The camera at the origin looking at the origin.\<close>

theorem look_at_own_position_witness:
  "c_position axis_camera = vfin (0, 0, 0) \<and>
   c_direction (look_at axis_camera (vfin (0, 0, 0))) = Some nanv \<and>
   c_right (look_at axis_camera (vfin (0, 0, 0))) = Some nanv \<and>
   c_up (look_at axis_camera (vfin (0, 0, 0))) = nanv \<and>
   c_vertices (look_at axis_camera (vfin (0, 0, 0))) = Some [vfin (0, 0, 0), nanv, nanv, nanv, nanv]"
proof -
  have a: "c_position axis_camera = vfin (0, 0, 0)"
    by (simp add: axis_camera_def Camera_def)
  from look_at_own_position [OF a] a show ?thesis by blast
qed

text \<open>
  Claim C4 as stated fails at the viewer's camera: looking at its own position (2, -4, 2)
  returns a camera whose direction, right and up hold NaN.
\<close>

theorem look_at_own_position_counterexample:
  "c_direction (look_at default_camera (c_position default_camera)) = Some (V NaN NaN NaN) \<and>
   c_right (look_at default_camera (c_position default_camera)) = Some (V NaN NaN NaN) \<and>
   c_up (look_at default_camera (c_position default_camera)) = V NaN NaN NaN"
proof -
  have a: "c_position default_camera = vfin (2, - 4, 2)"
    by (simp add: default_camera_def Camera_def)
  show ?thesis
    unfolding a look_at_same [OF a] by (simp add: nanv_def)
qed

text \<open>
  Claim C5, as the code has it. \<^verbatim>\<open>look_at\<close> with a target distinct from the position and
  a direction parallel to the up vector (cross product zero) does not fail: the direction is
  the unit vector towards the target, and right and up are vectors of NaN components.
\<close>

theorem look_at_along_up:
  assumes "c_position c = vfin p" and "c_up c = vfin h"
    and "t \<noteq> p" and "rcross (rsub t p) h = (0, 0, 0)"
  shows "c_direction (look_at c (vfin t)) = Some (vfin (rnormalize (rsub t p))) \<and>
         c_right (look_at c (vfin t)) = Some nanv \<and>
         c_up (look_at c (vfin t)) = nanv"
  by (simp add: look_at_parallel [OF assms])

text \<open>The camera at the origin with up vector (0, 0, 1) looking at (0, 0, 2).\<close>

theorem look_at_along_up_witness:
  "c_position axis_camera = vfin (0, 0, 0) \<and> c_up axis_camera = vfin (0, 0, 1) \<and>
   (0, 0, 2) \<noteq> ((0, 0, 0) :: rvec) \<and> rcross (rsub (0, 0, 2) (0, 0, 0)) (0, 0, 1) = (0, 0, 0) \<and>
   c_direction (look_at axis_camera (vfin (0, 0, 2))) =
     Some (vfin (rnormalize (rsub (0, 0, 2) (0, 0, 0)))) \<and>
   c_right (look_at axis_camera (vfin (0, 0, 2))) = Some nanv \<and>
   c_up (look_at axis_camera (vfin (0, 0, 2))) = nanv"
proof -
  have a: "c_position axis_camera = vfin (0, 0, 0)" and b: "c_up axis_camera = vfin (0, 0, 1)"
    by (simp_all add: axis_camera_def Camera_def)
  have c: "(0, 0, 2) \<noteq> ((0, 0, 0) :: rvec)" by simp
  have d: "rcross (rsub (0, 0, 2) (0, 0, 0)) (0, 0, 1) = (0, 0, 0)" by simp
  from look_at_along_up [OF a b c d] a b c d show ?thesis by blast
qed

text \<open>
  Claim C5 as stated fails at the viewer's camera looking straight up, at (2, -4, 3): the
  call returns, with a right vector of NaN components.
\<close>

theorem look_at_along_up_counterexample:
  "c_direction (look_at default_camera (vfin (2, - 4, 3))) = Some (vfin (0, 0, 1)) \<and>
   c_right (look_at default_camera (vfin (2, - 4, 3))) = Some (V NaN NaN NaN) \<and>
   c_up (look_at default_camera (vfin (2, - 4, 3))) = V NaN NaN NaN"
proof -
  have a: "c_position default_camera = vfin (2, - 4, 2)"
    and b: "c_up default_camera = vfin (0, 0, 1)"
    by (simp_all add: default_camera_def Camera_def)
  have c: "(2, - 4, 3) \<noteq> ((2, - 4, 2) :: rvec)" by simp
  have d: "rcross (rsub (2, - 4, 3) (2, - 4, 2)) (0, 0, 1) = (0, 0, 0)" by simp
  have e: "rnormalize (rsub (2, - 4, 3) (2, - 4, 2)) = (0, 0, 1)"
    by (simp add: rnormalize_def rnorm_def)
  show ?thesis
    unfolding look_at_parallel [OF a b c d] e by (simp add: nanv_def)
qed

section \<open>The projection\<close>

lemma vadd_vfin: "vadd (vfin a) (vfin b) = vfin (radd a b)"
  by (cases a; cases b) simp

lemma matvec_column_stack:
  "matvec (column_stack (vfin a) (vfin b) (vfin c)) (vfin v) = vfin (rcolmul a b c v)"
  by (cases a; cases b; cases c; cases v) (simp add: algebra_simps)

lemma matvec_mneg_column_stack:
  "matvec (mneg (column_stack (vfin a) (vfin b) (vfin c))) (vfin v) =
   vfin (rscale (- 1) (rcolmul a b c v))"
  by (cases a; cases b; cases c; cases v) (simp add: algebra_simps)

lemma project_vertex_finite:
  assumes "vadd (matvec R (vfin p)) t = vfin (tx, ty, tz)"
  shows "project_vertex R t (vfin p) =
     (let z = (if tz < 1 / 10 then 1 / 10 else tz)
      in (Fin (800 * (tx / z) + 0 * (ty / z) + 320 * 1),
          Fin (0 * (tx / z) + 800 * (ty / z) + 240 * 1)))"
  using assms by (simp add: camera_matrix_def Let_def)

lemma project_vertex_spec:
  "project_vertex (column_stack (vfin r) (cross (vfin u) (vfin r)) (vfin u))
     (matvec (mneg (column_stack (vfin r) (cross (vfin u) (vfin r)) (vfin u))) (vfin c))
     (vfin p) = pixel_fin (spec_pixel r u c p)"
proof -
  obtain tx ty tz where
    t: "radd (rcolmul r (rcross u r) u p) (rscale (- 1) (rcolmul r (rcross u r) u c)) = (tx, ty, tz)"
    by (metis prod_cases3)
  have "vadd (matvec (column_stack (vfin r) (cross (vfin u) (vfin r)) (vfin u)) (vfin p))
      (matvec (mneg (column_stack (vfin r) (cross (vfin u) (vfin r)) (vfin u))) (vfin c)) =
      vfin (tx, ty, tz)"
    by (simp only: cross_vfin matvec_column_stack matvec_mneg_column_stack vadd_vfin t)
  from project_vertex_finite [OF this] show ?thesis
    by (simp add: spec_pixel_def t Let_def)
qed

text \<open>
  Claim C3. For a camera with a defined finite right vector, a finite up vector and a finite
  position, the projected points computed by \<^verbatim>\<open>draw_projected_view\<close> are, for every
  world point, the pixel of the specification: rotation matrix with columns right,
  up x right, up; translation minus the matrix applied to the position; depth clamped up to
  0.1 when below it; division by the depth; the matrix K; the first two components. No
  error is raised.
\<close>

theorem projected_points_spec:
  assumes "c_right cam = Some (vfin r)" and "c_up cam = vfin u" and "c_position cam = vfin c"
  shows "projected_points cam (map vfin ps) = Inr (map (\<lambda>p. pixel_fin (spec_pixel r u c p)) ps)"
  using assms by (simp add: projected_points_def Let_def project_vertex_spec del: project_vertex.simps)

text \<open>
  The camera at the origin looking along the first axis projects (1, 0, 0), whose depth 0 is
  clamped, to (320, -7760) and (1, 1, 1) to (1120, -560).
\<close>

theorem projected_points_spec_witness:
  "c_right (look_at axis_camera (vfin (1, 0, 0))) = Some (vfin (0, - 1, 0)) \<and>
   c_up (look_at axis_camera (vfin (1, 0, 0))) = vfin (0, 0, 1) \<and>
   c_position (look_at axis_camera (vfin (1, 0, 0))) = vfin (0, 0, 0) \<and>
   projected_points (look_at axis_camera (vfin (1, 0, 0))) (map vfin [(1, 0, 0), (1, 1, 1)]) =
     Inr (map (\<lambda>p. pixel_fin (spec_pixel (0, - 1, 0) (0, 0, 1) (0, 0, 0) p)) [(1, 0, 0), (1, 1, 1)]) \<and>
   map (\<lambda>p. pixel_fin (spec_pixel (0, - 1, 0) (0, 0, 1) (0, 0, 0) p)) [(1, 0, 0), (1, 1, 1)] =
     [(Fin 320, Fin (- 7760)), (Fin 1120, Fin (- 560))]"
proof -
  let ?c = "look_at axis_camera (vfin (1, 0, 0))"
  have pl: "\<And>c t. c_position (look_at c t) = c_position c"
    by (simp add: look_at_def update_camera_def Let_def split: option.splits)
  have a: "c_position ?c = vfin (0, 0, 0)"
    unfolding pl by (simp add: axis_camera_def Camera_def)
  note r = axis_look_at(2) and u = axis_look_at(3)
  have e: "map (\<lambda>p. pixel_fin (spec_pixel (0, - 1, 0) (0, 0, 1) (0, 0, 0) p)) [(1, 0, 0), (1, 1, 1)] =
     [(Fin 320, Fin (- 7760)), (Fin 1120, Fin (- 560))]"
    by (simp add: spec_pixel_def)
  from projected_points_spec [OF r u a, of "[(1, 0, 0), (1, 1, 1)]"] r u a e
  show ?thesis by blast
qed

section \<open>The cube\<close>

lemma cube_vertices_finite:
  "cube_vertices (Cube (vfin origin) (Fin s)) =
     Some (map vfin [radd origin (a, b, c). c \<leftarrow> [0, s], b \<leftarrow> [0, s], a \<leftarrow> [0, s]])"
  by (cases origin) (simp add: Cube_def cube_update_geometry_def Let_def)

lemma cube_edges_finite:
  "cube_edges (Cube (vfin origin) (Fin s)) =
     Some (map (\<lambda>(a, b). (vfin (radd origin a), vfin (radd origin b)))
       [((0, 0, 0), (s, 0, 0)), ((0, 0, 0), (0, s, 0)), ((0, 0, 0), (0, 0, s)),
        ((s, 0, 0), (s, s, 0)), ((s, 0, 0), (s, 0, s)), ((0, s, 0), (s, s, 0)),
        ((0, s, 0), (0, s, s)), ((0, 0, s), (s, 0, s)), ((0, 0, s), (0, s, s)),
        ((s, s, s), (s, s, 0)), ((s, s, s), (s, 0, s)), ((s, s, s), (0, s, s))])"
  by (cases origin) (simp add: Cube_def cube_update_geometry_def edge_indices_def Let_def)

lemma norm3_axis:
  "norm3 (V (Fin s) (Fin 0) (Fin 0)) = Fin \<bar>s\<bar>"
  "norm3 (V (Fin 0) (Fin s) (Fin 0)) = Fin \<bar>s\<bar>"
  "norm3 (V (Fin 0) (Fin 0) (Fin s)) = Fin \<bar>s\<bar>"
  "norm3 (V (Fin (- s)) (Fin 0) (Fin 0)) = Fin \<bar>s\<bar>"
  "norm3 (V (Fin 0) (Fin (- s)) (Fin 0)) = Fin \<bar>s\<bar>"
  "norm3 (V (Fin 0) (Fin 0) (Fin (- s))) = Fin \<bar>s\<bar>"
  by (simp_all add: not_less)

text \<open>
  Claim C8, as the code has it. For every cube with finite origin o and size s the vertices
  are the eight points o + (a, b, c) with a, b, c in {0, s}, in the order of the source;
  there are exactly twelve edges; the displacement along each edge is s or -s along one
  axis and zero along the two others, so no edge is a diagonal; and each edge has length
  |s|, which is s when s is not negative.
\<close>

theorem cube_geometry:
  "cube_vertices (Cube (vfin origin) (Fin s)) =
     Some (map vfin [radd origin (a, b, c). c \<leftarrow> [0, s], b \<leftarrow> [0, s], a \<leftarrow> [0, s]]) \<and>
   (\<exists>es. cube_edges (Cube (vfin origin) (Fin s)) = Some es \<and> length es = 12 \<and>
      map edge_vector es =
        map vfin [(s, 0, 0), (0, s, 0), (0, 0, s), (0, s, 0), (0, 0, s), (s, 0, 0),
                  (0, 0, s), (s, 0, 0), (0, s, 0), (0, 0, - s), (0, - s, 0), (- s, 0, 0)] \<and>
      map (\<lambda>e. norm3 (edge_vector e)) es = replicate 12 (Fin \<bar>s\<bar>))"
proof -
  obtain x y z where origin: "origin = (x, y, z)" by (metis prod_cases3)
  let ?es = "map (\<lambda>(a, b). (vfin (radd origin a), vfin (radd origin b)))
       [((0, 0, 0), (s, 0, 0)), ((0, 0, 0), (0, s, 0)), ((0, 0, 0), (0, 0, s)),
        ((s, 0, 0), (s, s, 0)), ((s, 0, 0), (s, 0, s)), ((0, s, 0), (s, s, 0)),
        ((0, s, 0), (0, s, s)), ((0, 0, s), (s, 0, s)), ((0, 0, s), (0, s, s)),
        ((s, s, s), (s, s, 0)), ((s, s, s), (s, 0, s)), ((s, s, s), (0, s, s))]"
  let ?vs = "[(s, 0, 0), (0, s, 0), (0, 0, s), (0, s, 0), (0, 0, s), (s, 0, 0),
              (0, 0, s), (s, 0, 0), (0, s, 0), (0, 0, - s), (0, - s, 0), (- s, 0, 0)]"
  have v: "map edge_vector ?es = map vfin ?vs"
    by (simp add: origin fsub_def)
  have n: "map norm3 (map vfin ?vs) = replicate 12 (Fin \<bar>s\<bar>)"
    by (simp add: norm3_axis numeral_eq_Suc del: norm3.simps)
  have n': "\<And>es. map (\<lambda>e. norm3 (edge_vector e)) es = map norm3 (map edge_vector es)"
    by simp
  show ?thesis
  proof (intro conjI exI)
    show "cube_vertices (Cube (vfin origin) (Fin s)) =
        Some (map vfin [radd origin (a, b, c). c \<leftarrow> [0, s], b \<leftarrow> [0, s], a \<leftarrow> [0, s]])"
      by (rule cube_vertices_finite)
    show "cube_edges (Cube (vfin origin) (Fin s)) = Some ?es"
      by (rule cube_edges_finite)
    show "length ?es = 12" by simp
    show "map edge_vector ?es = map vfin ?vs" by (rule v)
    show "map (\<lambda>e. norm3 (edge_vector e)) ?es = replicate 12 (Fin \<bar>s\<bar>)"
      unfolding n' v by (rule n)
  qed
qed

text \<open>
  Claim C8 as stated fails for a negative size: in the cube of origin (0, 0, 0) and size
  -1 the first edge runs from (0, 0, 0) to (-1, 0, 0) and has length 1, not -1.
\<close>

theorem cube_edge_length_counterexample:
  "cube_edges (Cube (vfin (0, 0, 0)) (Fin (- 1))) =
     Some [(vfin (0, 0, 0), vfin (- 1, 0, 0)), (vfin (0, 0, 0), vfin (0, - 1, 0)),
           (vfin (0, 0, 0), vfin (0, 0, - 1)), (vfin (- 1, 0, 0), vfin (- 1, - 1, 0)),
           (vfin (- 1, 0, 0), vfin (- 1, 0, - 1)), (vfin (0, - 1, 0), vfin (- 1, - 1, 0)),
           (vfin (0, - 1, 0), vfin (0, - 1, - 1)), (vfin (0, 0, - 1), vfin (- 1, 0, - 1)),
           (vfin (0, 0, - 1), vfin (0, - 1, - 1)), (vfin (- 1, - 1, - 1), vfin (- 1, - 1, 0)),
           (vfin (- 1, - 1, - 1), vfin (- 1, 0, - 1)), (vfin (- 1, - 1, - 1), vfin (0, - 1, - 1))] \<and>
   norm3 (edge_vector (vfin (0, 0, 0), vfin (- 1, 0, 0))) = Fin 1 \<and>
   Fin 1 \<noteq> Fin (- 1)"
  by (simp add: Cube_def cube_update_geometry_def edge_indices_def fsub_def Let_def)

section \<open>The plane\<close>

lemma upt4: "[0..<4] = [0, 1, 2, 3::nat]"
  by (simp add: upt_rec)

lemma transform_zero:
  "matmul (matmul (matmul [[1, 0, 0, a], [0, 1, 0, b], [0, 0, 1, c], [0, 0, 0, 1]]
      [[cos 0, - sin 0, 0, 0], [sin 0, cos 0, 0, 0], [0, 0, 1, 0], [0, 0, 0, 1]])
      [[cos 0, 0, sin 0, 0], [0, 1, 0, 0], [- sin 0, 0, cos 0, 0], [0, 0, 0, 1]])
      [[1, 0, 0, 0], [0, cos 0, - sin 0, 0], [0, sin 0, cos 0, 0], [0, 0, 0, 1]] =
   [[1, 0, 0, a], [0, 1, 0, b], [0, 0, 1, c], [0, 0, 0, 1]]"
  by (simp add: matmul_def upt4)

lemma matmul_translate:
  assumes "length ys = length xs" and "length zs = length xs" and "length ws = length xs"
  shows "matmul [[1, 0, 0, a], [0, 1, 0, b], [0, 0, 1, c], [0, 0, 0, 1]] [xs, ys, zs, ws] =
     [map (\<lambda>j. xs ! j + a * ws ! j) [0..<length xs],
      map (\<lambda>j. ys ! j + b * ws ! j) [0..<length xs],
      map (\<lambda>j. zs ! j + c * ws ! j) [0..<length xs],
      map (\<lambda>j. ws ! j) [0..<length xs]]"
  by (simp add: matmul_def upt4)

lemma concat_reshape: "length a = n * m \<Longrightarrow> concat (reshape n m a) = a"
proof -
  have "concat (reshape k m a) = take (k * m) a" for k
  proof (induction k)
    case 0
    then show ?case by (simp add: reshape_def)
  next
    case (Suc k)
    have "take (k * m) a @ take m (drop (k * m) a) = take (k * m + m) a"
      by (simp add: take_add)
    with Suc show ?case by (simp add: reshape_def add.commute)
  qed
  then show "length a = n * m \<Longrightarrow> concat (reshape n m a) = a" by simp
qed


lemma length_concat_const: "length (concat (map (\<lambda>v. xs) ys)) = length ys * length xs"
  by (induction ys) simp_all

lemma length_concat_rows:
  "length (concat (map (\<lambda>v. map (\<lambda>w. f v w) xs) ys)) = length ys * length xs"
  by (induction ys) simp_all

lemma set_concat_const: "ys \<noteq> [] \<Longrightarrow> set (concat (map (\<lambda>v. xs) ys)) = set xs"
  by (cases ys) auto

lemma set_concat_rows: "xs \<noteq> [] \<Longrightarrow> set (concat (map (\<lambda>v. map (\<lambda>w. v) xs) ys)) = set ys"
  by (cases xs) auto

lemma map_nth_affine:
  assumes "length ws = length xs" and "\<And>j. j < length xs \<Longrightarrow> ws ! j = 1"
  shows "map (\<lambda>j. xs ! j + a * ws ! j) [0..<length xs] = map (\<lambda>x. x + a) (xs :: real list)"
  using assms by (intro nth_equalityI) simp_all

lemma plane_zero_rotation_surface:
  assumes l: "linspace (- s) s n = Inr xs"
  shows "Plane (cx, cy, cz) (0, 0, 0) s n =
     Inr \<lparr>p_center = (cx, cy, cz), p_rotation = (0, 0, 0), p_scale = s, p_num_points = n,
          p_surface = Some
            (reshape (nat n) (nat n) (map (\<lambda>x. x + cx) (concat (map (\<lambda>v. xs) xs))),
             reshape (nat n) (nat n) (map (\<lambda>y. y + cy) (concat (map (\<lambda>v. map (\<lambda>w. v) xs) xs))),
             reshape (nat n) (nat n) (map (\<lambda>z. cz) (concat (map (\<lambda>v. xs) xs))))\<rparr>"
proof -
  let ?a = "concat (map (\<lambda>v. xs) xs)"
  let ?b = "concat (map (\<lambda>v. map (\<lambda>w. v) xs) xs)"
  let ?c = "concat (zeros_like (map (\<lambda>v. xs) xs))"
  let ?d = "ones_like ?a"
  have la: "length ?a = length xs * length xs" by (rule length_concat_const)
  have lb: "length ?b = length ?a" unfolding la by (rule length_concat_rows)
  have lc: "length ?c = length ?a"
    unfolding la zeros_like_def map_map comp_def by (rule length_concat_rows)
  have ld: "length ?d = length ?a" by (simp add: ones_like_def)
  have c0: "?c = map (\<lambda>v. 0) ?a"
    by (simp add: zeros_like_def map_concat comp_def)
  have m: "matmul [[1, 0, 0, cx], [0, 1, 0, cy], [0, 0, 1, cz], [0, 0, 0, 1]] [?a, ?b, ?c, ?d] =
     [map (\<lambda>x. x + cx) ?a, map (\<lambda>y. y + cy) ?b, map (\<lambda>z. cz) ?a, map (\<lambda>j. ?d ! j) [0..<length ?a]]"
  proof -
    have 1: "map (\<lambda>j. ?a ! j + cx * ?d ! j) [0..<length ?a] = map (\<lambda>x. x + cx) ?a"
      by (rule map_nth_affine) (simp_all add: ones_like_def)
    have 2: "map (\<lambda>j. ?b ! j + cy * ?d ! j) [0..<length ?a] = map (\<lambda>y. y + cy) ?b"
      unfolding lb [symmetric]
      by (rule map_nth_affine) (simp_all add: ones_like_def lb)
    have 3: "map (\<lambda>j. ?c ! j + cz * ?d ! j) [0..<length ?a] = map (\<lambda>z. cz) ?a"
      unfolding c0 by (intro nth_equalityI) (simp_all add: ones_like_def)
    show ?thesis
      unfolding matmul_translate [OF lb lc ld] 1 2 3 ..
  qed
  show ?thesis
    unfolding Plane_def plane_update_geometry_def
    by (simp add: l meshgrid_def radians_def transform_zero [simplified] m Let_def
        del: concat_map_singleton)
qed


lemma linspace_nth:
  assumes n: "2 \<le> n"
  shows "\<exists>ys. linspace a b n = Inr ys \<and> length ys = nat n \<and>
     (\<forall>i<nat n. ys ! i =
        (if i = nat n - 1 then b else a + real i * ((b - a) / real_of_int (n - 1))))"
proof (cases "(b - a) / real_of_int (n - 1) = 0")
  case True
  with n have "b - a = 0" by simp
  with n True show ?thesis
    by (simp add: linspace_def Let_def nth_list_update)
next
  case False
  with n show ?thesis
    by (simp add: linspace_def Let_def nth_list_update add.commute)
qed

lemma linspace_symmetric:
  assumes n: "2 \<le> n"
  shows "\<exists>xs. linspace (- s) s n = Inr xs \<and> length xs = nat n \<and>
     - s \<in> set xs \<and> s \<in> set xs \<and> (\<forall>x\<in>set xs. \<bar>x\<bar> \<le> \<bar>s\<bar>)"
proof -
  from linspace_nth [OF n, of "- s" s] obtain xs where
    l: "linspace (- s) s n = Inr xs" and len: "length xs = nat n"
    and nth: "\<And>i. i < nat n \<Longrightarrow> xs ! i =
        (if i = nat n - 1 then s else - s + real i * ((s - - s) / real_of_int (n - 1)))"
    by blast
  have N: "2 \<le> nat n" using n by linarith
  have "0 < nat n" "0 \<noteq> nat n - 1" using N by linarith+
  then have "xs ! 0 = - s" using nth [of 0] by simp
  moreover have "0 < length xs" using len N by linarith
  ultimately have first: "- s \<in> set xs" by (metis nth_mem)
  have "nat n - 1 < nat n" using N by linarith
  then have "xs ! (nat n - 1) = s" using nth [of "nat n - 1"] by simp
  moreover have "nat n - 1 < length xs" using len N by linarith
  ultimately have last: "s \<in> set xs" by (metis nth_mem)
  have bound: "\<bar>x\<bar> \<le> \<bar>s\<bar>" if "x \<in> set xs" for x
  proof -
    from that obtain i where i: "i < nat n" and x: "x = xs ! i"
      using len by (metis in_set_conv_nth)
    show ?thesis
    proof (cases "i = nat n - 1")
      case True
      then show ?thesis using nth [OF i] x by simp
    next
      case False
      with i n have lt: "real i \<le> real_of_int (n - 1)" by linarith
      have pos: "0 < real_of_int (n - 1)" using n by simp
      define q where "q = real i / real_of_int (n - 1)"
      have q: "0 \<le> q" "q \<le> 1" using lt pos by (simp_all add: q_def)
      have "x = - s + real i * ((s - - s) / real_of_int (n - 1))"
        using nth [OF i] x False by simp
      also have "\<dots> = s * (2 * q - 1)"
        by (simp add: q_def algebra_simps)
      finally have "\<bar>x\<bar> = \<bar>s\<bar> * \<bar>2 * q - 1\<bar>" by (simp add: abs_mult)
      moreover have "\<bar>2 * q - 1\<bar> \<le> 1" using q by linarith
      ultimately show ?thesis
        by (simp add: mult_left_le)
    qed
  qed
  from l len first last bound show ?thesis by blast
qed


text \<open>
  Claim C9, as the code has it. For every plane constructed with rotation (0, 0, 0) and a
  resolution of at least 2, the surface consists of three grids of resolution x resolution
  entries; every Z coordinate equals center.z; every X coordinate lies within |scale| of
  center.x and both center.x - scale and center.x + scale occur among them; likewise for Y
  and center.y. For a scale that is not negative this is the interval
  [center - scale, center + scale] with both end points attained.
\<close>

theorem plane_flat_grid:
  assumes "2 \<le> n"
  shows "\<exists>p X Y Z. Plane (cx, cy, cz) (0, 0, 0) s n = Inr p \<and> p_surface p = Some (X, Y, Z) \<and>
     length (concat X) = nat n * nat n \<and> length (concat Y) = nat n * nat n \<and>
     length (concat Z) = nat n * nat n \<and>
     (\<forall>z\<in>set (concat Z). z = cz) \<and>
     (\<forall>x\<in>set (concat X). \<bar>x - cx\<bar> \<le> \<bar>s\<bar>) \<and>
     cx - s \<in> set (concat X) \<and> cx + s \<in> set (concat X) \<and>
     (\<forall>y\<in>set (concat Y). \<bar>y - cy\<bar> \<le> \<bar>s\<bar>) \<and>
     cy - s \<in> set (concat Y) \<and> cy + s \<in> set (concat Y)"
proof -
  from linspace_symmetric [OF assms, of s] obtain xs where
    l: "linspace (- s) s n = Inr xs" and len: "length xs = nat n"
    and lo: "- s \<in> set xs" and hi: "s \<in> set xs" and bd: "\<And>x. x \<in> set xs \<Longrightarrow> \<bar>x\<bar> \<le> \<bar>s\<bar>"
    by blast
  let ?a = "concat (map (\<lambda>v. xs) xs)"
  let ?b = "concat (map (\<lambda>v. map (\<lambda>w. v) xs) xs)"
  let ?X = "reshape (nat n) (nat n) (map (\<lambda>x. x + cx) ?a)"
  let ?Y = "reshape (nat n) (nat n) (map (\<lambda>y. y + cy) ?b)"
  let ?Z = "reshape (nat n) (nat n) (map (\<lambda>z. cz) ?a)"
  have ne: "xs \<noteq> []" using lo by auto
  have la: "length ?a = nat n * nat n" unfolding len [symmetric] by (rule length_concat_const)
  have lb: "length ?b = nat n * nat n" unfolding len [symmetric] by (rule length_concat_rows)
  have cX: "concat ?X = map (\<lambda>x. x + cx) ?a" by (rule concat_reshape) (simp add: la)
  have cY: "concat ?Y = map (\<lambda>y. y + cy) ?b" by (rule concat_reshape) (simp add: lb)
  have cZ: "concat ?Z = map (\<lambda>z. cz) ?a" by (rule concat_reshape) (simp add: la)
  have sa: "set ?a = set xs" using ne by (rule set_concat_const)
  have sb: "set ?b = set xs" using ne by (rule set_concat_rows)
  have sX: "set (concat ?X) = (\<lambda>x. x + cx) ` set xs" unfolding cX by (simp only: set_map sa)
  have sY: "set (concat ?Y) = (\<lambda>y. y + cy) ` set xs" unfolding cY by (simp only: set_map sb)
  have 1: "\<forall>z\<in>set (concat ?Z). z = cz" unfolding cZ by auto
  have 2: "\<forall>x\<in>set (concat ?X). \<bar>x - cx\<bar> \<le> \<bar>s\<bar>" unfolding sX using bd by auto
  have 3: "cx - s \<in> set (concat ?X)" unfolding sX using lo by force
  have 4: "cx + s \<in> set (concat ?X)" unfolding sX using hi by force
  have 5: "\<forall>y\<in>set (concat ?Y). \<bar>y - cy\<bar> \<le> \<bar>s\<bar>" unfolding sY using bd by auto
  have 6: "cy - s \<in> set (concat ?Y)" unfolding sY using lo by force
  have 7: "cy + s \<in> set (concat ?Y)" unfolding sY using hi by force
  have 8: "length (concat ?X) = nat n * nat n" unfolding cX by (simp add: la)
  have 9: "length (concat ?Y) = nat n * nat n" unfolding cY by (simp add: lb)
  have 10: "length (concat ?Z) = nat n * nat n" unfolding cZ by (simp add: la)
  let ?p = "\<lparr>p_center = (cx, cy, cz), p_rotation = (0, 0, 0), p_scale = s, p_num_points = n,
          p_surface = Some (?X, ?Y, ?Z)\<rparr>"
  have P: "Plane (cx, cy, cz) (0, 0, 0) s n = Inr ?p"
    by (rule plane_zero_rotation_surface [OF l])
  have S: "p_surface ?p = Some (?X, ?Y, ?Z)" by simp
  from P S 1 2 3 4 5 6 7 8 9 10 show ?thesis by blast
qed

text \<open>With a single sample \<^verbatim>\<open>np.linspace\<close> returns the start alone.\<close>

lemma linspace_one: "linspace a b 1 = Inr [a]"
  by (simp add: linspace_def)

text \<open>
  Claim C9 as stated fails at resolution 1: the plane of centre (0, 0, 0), rotation
  (0, 0, 0) and scale 5 has the single grid point (-5, -5, 0), so X never reaches
  center.x + scale = 5.
\<close>

theorem plane_single_point_counterexample:
  "Plane (0, 0, 0) (0, 0, 0) 5 1 =
     Inr \<lparr>p_center = (0, 0, 0), p_rotation = (0, 0, 0), p_scale = 5, p_num_points = 1,
          p_surface = Some ([[- 5]], [[- 5]], [[0]])\<rparr> \<and>
   (0 + 5 :: real) \<notin> set (concat [[- 5]])"
proof -
  have "Plane (0, 0, 0) (0, 0, 0) 5 1 =
     Inr \<lparr>p_center = (0, 0, 0), p_rotation = (0, 0, 0), p_scale = 5, p_num_points = 1,
          p_surface = Some
            (reshape (nat 1) (nat 1) (map (\<lambda>x. x + 0) (concat (map (\<lambda>v. [- 5]) [- 5 :: real]))),
             reshape (nat 1) (nat 1) (map (\<lambda>y. y + 0) (concat (map (\<lambda>v. map (\<lambda>w. v) [- 5 :: real]) [- 5]))),
             reshape (nat 1) (nat 1) (map (\<lambda>z. 0) (concat (map (\<lambda>v. [- 5 :: real]) [- 5 :: real]))))\<rparr>"
    by (rule plane_zero_rotation_surface) (rule linspace_one)
  then show ?thesis by (simp add: reshape_def)
qed

text \<open>The plane of centre (1, 2, 3), scale 5 and resolution 2.\<close>

theorem plane_flat_grid_witness:
  "(2 :: int) \<le> 2 \<and>
   (\<exists>p X Y Z. Plane (1, 2, 3) (0, 0, 0) 5 2 = Inr p \<and> p_surface p = Some (X, Y, Z) \<and>
     length (concat X) = nat 2 * nat 2 \<and> length (concat Y) = nat 2 * nat 2 \<and>
     length (concat Z) = nat 2 * nat 2 \<and>
     (\<forall>z\<in>set (concat Z). z = 3) \<and>
     (\<forall>x\<in>set (concat X). \<bar>x - 1\<bar> \<le> \<bar>5\<bar>) \<and>
     1 - 5 \<in> set (concat X) \<and> 1 + 5 \<in> set (concat X) \<and>
     (\<forall>y\<in>set (concat Y). \<bar>y - 2\<bar> \<le> \<bar>5\<bar>) \<and>
     2 - 5 \<in> set (concat Y) \<and> 2 + 5 \<in> set (concat Y))"
proof -
  have a: "(2 :: int) \<le> 2" by simp
  from plane_flat_grid [OF a, of 1 2 3 5] a show ?thesis by blast
qed

section \<open>Failing updates\<close>

text \<open>
  On positions of three components the camera object behaves as the camera of the earlier
  sections, and every call returns.
\<close>

lemma update_camera_arr_of: "update_camera_arr (arr_of c) = Returns (arr_of (update_camera c))"
  by (cases "c_position c")
    (simp add: update_camera_arr_def update_camera_def update_vertices_arr_def
      update_vertices_def arr_of_def Let_def split: option.splits)

lemma arr_of_position:
  "(arr_of c)\<lparr>k_position := [x, y, z]\<rparr> = arr_of (c\<lparr>c_position := V x y z\<rparr>)"
  by (simp add: arr_of_def)

lemma arr_of_size: "(arr_of c)\<lparr>k_size := s\<rparr> = arr_of (c\<lparr>c_size := s\<rparr>)"
  by (simp add: arr_of_def)


lemma position_setter_arr_of:
  "position_setter (arr_of c) [x, y, z] = Returns (arr_of (set_position c (V x y z)))"
  by (simp only: position_setter_def set_position_def arr_of_position update_camera_arr_of)

lemma size_setter_arr_of: "size_setter (arr_of c) s = Returns (arr_of (set_size c s))"
  by (simp only: size_setter_def set_size_def arr_of_size update_camera_arr_of)













end
